theory Spec2Isabelle
  imports Main
begin

section \<open>Go library functions used by the proxy\<close>

text \<open>
  Go strings are byte sequences; they are modelled as \<open>string\<close> (a list of 8-bit
  characters). The functions below follow the Go standard library for the arguments
  the proxy passes: the separator is always the single byte \<open>:\<close>.
\<close>

text \<open>\<open>strings.HasPrefix(s, prefix)\<close>:
  \<open>len(s) >= len(prefix) && s[0:len(prefix)] == prefix\<close>.\<close>

definition HasPrefix :: "string \<Rightarrow> string \<Rightarrow> bool" where
  "HasPrefix s pre = (length pre \<le> length s \<and> take (length pre) s = pre)"

text \<open>\<open>strings.IndexRune(s, c)\<close> for an ASCII rune: the index of the first
  occurrence, or \<open>-1\<close>.\<close>

fun IndexRune :: "string \<Rightarrow> char \<Rightarrow> int" where
  "IndexRune [] c = - 1"
| "IndexRune (x # xs) c =
     (if x = c then 0
      else (let i = IndexRune xs c in if i = - 1 then - 1 else i + 1))"

text \<open>\<open>strings.SplitN(s, sep, n)\<close> for \<open>n \<ge> 0\<close> and a one-byte separator: at
  most \<open>n\<close> pieces, the last one the unsplit remainder; \<open>n = 0\<close> gives no piece.\<close>

fun SplitN :: "string \<Rightarrow> char \<Rightarrow> nat \<Rightarrow> string list" where
  "SplitN s sep 0 = []"
| "SplitN s sep (Suc 0) = [s]"
| "SplitN [] sep (Suc (Suc n)) = [[]]"
| "SplitN (x # xs) sep (Suc (Suc n)) =
     (if x = sep then [] # SplitN xs sep (Suc n)
      else (case SplitN xs sep (Suc (Suc n)) of
              [] \<Rightarrow> [[x]]
            | p # ps \<Rightarrow> (x # p) # ps))"

text \<open>\<open>strings.Split(s, sep)\<close> for a one-byte separator: all the pieces.\<close>

fun Split :: "string \<Rightarrow> char \<Rightarrow> string list" where
  "Split [] sep = [[]]"
| "Split (x # xs) sep =
     (if x = sep then [] # Split xs sep
      else (case Split xs sep of
              [] \<Rightarrow> [[x]]
            | p # ps \<Rightarrow> (x # p) # ps))"

text \<open>\<open>strconv.Atoi\<close>: an optional sign, then one or more decimal digits, and the
  value must fit Go's \<open>int\<close> (64 bits here). Anything else is an error:
  \<open>ErrSyntax\<close> or \<open>ErrRange\<close>.\<close>

datatype NumError = ErrSyntax | ErrRange

definition isDigit :: "char \<Rightarrow> bool" where
  "isDigit ch = (48 \<le> (of_char ch :: nat) \<and> (of_char ch :: nat) \<le> 57)"

fun digits :: "int \<Rightarrow> string \<Rightarrow> int option" where
  "digits n [] = Some n"
| "digits n (ch # cs) =
     (if isDigit ch then digits (n * 10 + (of_char ch - 48)) cs else None)"

definition Atoi :: "string \<Rightarrow> NumError + int" where
  "Atoi s =
     (case s of
        [] \<Rightarrow> Inl ErrSyntax
      | c # cs \<Rightarrow>
          (let neg = (c = CHR ''-'');
               ds = (if c = CHR ''-'' \<or> c = CHR ''+'' then cs else s)
           in if ds = [] then Inl ErrSyntax
              else (case digits 0 ds of
                      None \<Rightarrow> Inl ErrSyntax
                    | Some n \<Rightarrow>
                        (let v = (if neg then - n else n)
                         in if v < - (2 ^ 63) \<or> 2 ^ 63 - 1 < v then Inl ErrRange
                            else Inr v))))"

text \<open>\<open>net.JoinHostPort(host, port)\<close>: \<open>host:port\<close>, with the host in square
  brackets when it contains a colon.\<close>

definition JoinHostPort :: "string \<Rightarrow> string \<Rightarrow> string" where
  "JoinHostPort host port =
     (if CHR '':'' \<in> set host
      then ''['' @ host @ '']:'' @ port
      else host @ '':'' @ port)"

section \<open>Data of the proxy\<close>

text \<open>The fields of \<open>url.URL\<close> and \<open>http.Request\<close> that the proxy reads or sets.\<close>

record url =
  Opaque :: string
  URLHost :: string
  Path :: string

record request =
  Method :: string
  URL :: url
  Host :: string
  RemoteAddr :: string
  Header :: "(string \<times> string) list"

text \<open>Modelled from the spec: \<open>firewall.Redirection\<close>, the descriptor
  \<open>{interface, protocol, fromPort, toAddress, toPort}\<close> built by
  \<open>firewall.NewRedirection\<close>; the type is declared outside the file at hand.\<close>

record redirection =
  Interface :: string
  Protocol :: string
  SrcPort :: int
  DstAddress :: string
  DstPort :: int

text \<open>The fields of \<open>http.Response\<close> that the proxy reads.\<close>

record response =
  StatusCode :: int
  ResponseBody :: string
  Request :: request

text \<open>The fields of \<open>tls.Certificate\<close> and \<open>tls.Config\<close> that the proxy sets.\<close>

record tlsCertificate =
  Certificate :: "string list"
  PrivateKey :: string
  Leaf :: "string option"

record tlsConfig =
  InsecureSkipVerify :: bool
  Certificates :: "tlsCertificate list"

text \<open>An accepted raw connection (\<open>net.Conn\<close>) of the TLS-mode listener: the
  peer's address and the bytes the peer has sent so far.\<close>

record conn =
  ConnRemoteAddr :: string
  ClientBytes :: string

text \<open>The arguments of a log call, and everything the proxy does to the world
  outside its own fields, in the order in which it happens: log lines, calls of the
  signer, of the firewall, of the listener and the HTTP server, of the proxy core's
  \<open>ServeHTTP\<close> (with the raw connection behind the \<open>dumbResponseWriter\<close> and the
  request), closing a raw connection, the assignment of the CA to goproxy's package
  variables, and calls of the script's two hooks. The colour wrappers of the \<open>core\<close>
  package around some log arguments are left out.\<close>

datatype arg = AStr string | AInt int | AReq request | ARedir redirection

datatype effect =
    LogDebug string "arg list"
  | LogInfo string "arg list"
  | LogWarning string "arg list"
  | LogError string "arg list"
  | SignCertificateForHost string int
  | FwEnableForwarding bool
  | FwEnableRedirection redirection bool
  | ListenerClose
  | ServerShutdown nat
  | ServeHTTP conn request
  | ConnClose conn
  | GoproxySetCA tlsCertificate
  | ScriptOnRequest request
  | ScriptOnResponse response

text \<open>How a Go function with result type \<open>error\<close> ends: it returns \<open>nil\<close>
  (\<open>Ok\<close>), it returns an error, or it panics.\<close>

datatype outcome = Ok | Err string | Panic string

section \<open>Host filter\<close>

definition blacklist :: "string list" where
  "blacklist = [''localhost'', ''127.0.0.1'']"

text \<open>The loop of \<open>doProxy\<close> over the blacklist: the first entry that is a prefix of
  the request's host ends it.\<close>

fun doProxy_blacklisted :: "request \<Rightarrow> string list \<Rightarrow> bool \<times> effect list" where
  "doProxy_blacklisted req [] = (True, [])"
| "doProxy_blacklisted req (blacklisted # rest) =
     (if HasPrefix (Host req) blacklisted
      then (False, [LogError ''Got request with blacklisted host: %s'' [AStr (Host req)]])
      else doProxy_blacklisted req rest)"

definition doProxy :: "request \<Rightarrow> bool \<times> effect list" where
  "doProxy req =
     (if Host req = ''''
      then (False, [LogError ''Got request with empty host: %v'' [AReq req]])
      else doProxy_blacklisted req blacklist)"

section \<open>Certificate cache and per-connection TLS configuration\<close>

type_synonym certCache = "string \<times> int \<rightharpoonup> tlsCertificate"

text \<open>Modelled from the spec: \<open>getCachedCert\<close>, defined in another file of the
  package. "Looks up (hostname, port) in the cache; on hit returns the stored
  certificate." A miss is Go's \<open>nil\<close>, here \<open>None\<close>.\<close>

definition getCachedCert :: "certCache \<Rightarrow> string \<Rightarrow> int \<Rightarrow> tlsCertificate option" where
  "getCachedCert cache hostname port = cache (hostname, port)"

text \<open>Modelled from the spec: \<open>setCachedCert\<close>, defined in another file of the
  package. The cache key is \<open>(hostname, port)\<close>, the value the certificate; an entry
  is never evicted.\<close>

definition setCachedCert :: "certCache \<Rightarrow> string \<Rightarrow> int \<Rightarrow> tlsCertificate \<Rightarrow> certCache" where
  "setCachedCert cache hostname port cert = cache((hostname, port) \<mapsto> cert)"

text \<open>
  The state \<open>TLSConfigFromCA\<close> works on: the process-wide certificate cache, and the
  state of the signer (its randomness and serial numbers), so that two signing
  operations for the same host need not give the same certificate.
  \<open>btls.SignCertificateForHost\<close> is a parameter: from the signer's state, the CA,
  the host name and the port it gives an error or a certificate, and the signer's
  next state.
\<close>

record 'g certState =
  certCache :: certCache
  signer :: 'g

type_synonym 'g signFun =
  "'g \<Rightarrow> tlsCertificate \<Rightarrow> string \<Rightarrow> int \<Rightarrow> (string + tlsCertificate) \<times> 'g"

text \<open>The first lines of the closure returned by \<open>TLSConfigFromCA\<close>: the host name
  is the part before the first colon, the port is 443 unless the part after the first
  colon is there and \<open>strconv.Atoi\<close> reads it. \<open>SplitN\<close> with \<open>n = 2\<close> gives one
  piece or two (lemma \<open>SplitN_two_length\<close> below), so \<open>parts[0]\<close> is always there and
  \<open>parts[1]\<close> is read only when it is.\<close>

definition splitHostPort :: "string \<Rightarrow> string \<times> int" where
  "splitHostPort host =
     (let parts = SplitN host CHR '':'' 2;
          hostname = parts ! 0;
          port = (if 1 < length parts
                  then (case Atoi (parts ! 1) of Inl err \<Rightarrow> 443 | Inr n \<Rightarrow> n)
                  else 443)
      in (hostname, port))"

text \<open>The closure returned by \<open>TLSConfigFromCA(ca)\<close>, applied to \<open>host\<close>. The result
  is Go's \<open>(*tls.Config, error)\<close>: \<open>Inl err\<close> is \<open>(nil, err)\<close>.\<close>

definition TLSConfigFromCA ::
  "tlsCertificate \<Rightarrow> 'g signFun \<Rightarrow> string \<Rightarrow> 'g certState
     \<Rightarrow> (string + tlsConfig) \<times> 'g certState \<times> effect list" where
  "TLSConfigFromCA ca sign host st =
     (let (hostname, port) = splitHostPort host in
      case getCachedCert (certCache st) hostname port of
        Some cert \<Rightarrow>
          (Inr \<lparr>InsecureSkipVerify = True, Certificates = [cert]\<rparr>, st, [])
      | None \<Rightarrow>
          (let es = [LogInfo ''Creating spoofed certificate for %s:%d'' [AStr hostname, AInt port],
                     SignCertificateForHost hostname port];
               (signed, g) = sign (signer st) ca hostname port
           in case signed of
                Inl err \<Rightarrow>
                  (Inl err, st\<lparr>signer := g\<rparr>,
                   es @ [LogWarning ''Cannot sign host certificate with provided CA: %s'' [AStr err]])
              | Inr cert \<Rightarrow>
                  (Inr \<lparr>InsecureSkipVerify = True, Certificates = [cert]\<rparr>,
                   st\<lparr>certCache := setCachedCert (certCache st) hostname port cert, signer := g\<rparr>,
                   es)))"

section \<open>The connection adapter of the CONNECT bridge\<close>

text \<open>The literal \<open>"HTTP/1.0 200 OK\r\n\r\n"\<close> that \<open>dumbResponseWriter.Write\<close>
  compares its buffer with.\<close>

definition okConnectBytes :: string where
  "okConnectBytes = ''HTTP/1.0 200 OK'' @ [CHR 0x0D, CHR 0x0A, CHR 0x0D, CHR 0x0A]"

text \<open>\<open>dumbResponseWriter.Write\<close>. The adapter embeds a \<open>net.Conn\<close>; the \<open>Write\<close>
  of that connection is the parameter \<open>connWrite\<close>: from the connection and a buffer
  it gives the connection afterwards and Go's \<open>(n int, err error)\<close>.\<close>

type_synonym 'c writeFun = "'c \<Rightarrow> string \<Rightarrow> 'c \<times> int \<times> string option"

definition dumbResponseWriter_Write :: "'c writeFun \<Rightarrow> 'c \<Rightarrow> string \<Rightarrow> 'c \<times> int \<times> string option" where
  "dumbResponseWriter_Write connWrite c buf =
     (if buf = okConnectBytes then (c, int (length buf), None)
      else connWrite c buf)"

text \<open>A raw connection to run the adapter on: it records the bytes written to it, and
  once closed its \<open>Write\<close> writes nothing and returns an error, as a closed
  \<open>net.Conn\<close> does.\<close>

record rawConn =
  Sent :: string
  Closed :: bool

definition rawConn_Write :: "rawConn writeFun" where
  "rawConn_Write c buf =
     (if Closed c then (c, 0, Some ''use of closed network connection'')
      else (c\<lparr>Sent := Sent c @ buf\<rparr>, int (length buf), None))"

section \<open>SNI sniffer\<close>

definition stripPort :: "string \<Rightarrow> string" where
  "stripPort s =
     (let ix = IndexRune s CHR '':''
      in if ix = - 1 then s else take (nat ix) s)"

text \<open>The function \<open>httpsWorker\<close> starts for every accepted connection \<open>c\<close>.
  \<open>vhost.TLS\<close> (a library that reads the ClientHello) is the parameter \<open>vhostTLS\<close>:
  an error, or the host name that \<open>tlsConn.Host()\<close> then returns, empty when the
  ClientHello carries no server name. The synthetic request has no remote address.\<close>

definition httpsWorker_conn :: "(conn \<Rightarrow> string + string) \<Rightarrow> conn \<Rightarrow> effect list" where
  "httpsWorker_conn vhostTLS c =
     (case vhostTLS c of
        Inl err \<Rightarrow> [LogWarning ''Error reading SNI: %s.'' [AStr err]]
      | Inr hostname \<Rightarrow>
          if hostname = '''' then [LogWarning ''Client does not support SNI.'' []]
          else [LogDebug ''Got new SNI from %s for %s''
                  [AStr (stripPort (ConnRemoteAddr c)), AStr hostname],
                ServeHTTP c
                  \<lparr>Method = ''CONNECT'',
                   URL = \<lparr>Opaque = hostname, URLHost = JoinHostPort hostname ''443'', Path = ''''\<rparr>,
                   Host = hostname,
                   RemoteAddr = '''',
                   Header = []\<rparr>])"

section \<open>The proxy, its hooks and its session\<close>

text \<open>Modelled from the spec: the action of a hook, \<open>JSResponse\<close>, which "carries
  {statusCode, headers, body}"; the type is declared in another file of the
  package.\<close>

record JSResponse =
  Status :: int
  Headers :: string
  Body :: string

text \<open>Modelled from the spec: \<open>JSResponse.ToResponse\<close> "builds a terminal HTTP
  response" from the action, for the request it answers.\<close>

definition ToResponse :: "JSResponse \<Rightarrow> request \<Rightarrow> response" where
  "ToResponse jsres req =
     \<lparr>StatusCode = Status jsres, ResponseBody = Body jsres, Request = req\<rparr>"

text \<open>Modelled from the spec: the hook capability \<open>ProxyScript\<close>,
  \<open>{OnRequest(req) -> optional Action, OnResponse(res) -> optional Action}\<close>, where
  an absent action means pass-through.\<close>

record ProxyScript =
  OnRequest :: "request \<Rightarrow> JSResponse option"
  OnResponse :: "response \<Rightarrow> JSResponse option"

text \<open>The payload that \<open>logAction\<close> hands to the event sink, with the event's name.\<close>

record event =
  EventName :: string
  To :: string
  EventMethod :: string
  EventHost :: string
  EventPath :: string
  Size :: int

text \<open>Modelled from the spec: the firewall redirection service,
  \<open>EnableForwarding(bool)\<close> and \<open>EnableRedirection(descriptor, bool) -> Error?\<close>,
  "idempotent enable/disable". Its state is the forwarding flag and the redirections in
  effect; whether \<open>EnableRedirection\<close> fails is a parameter, and a failed call changes
  nothing.\<close>

record firewall =
  forwarding :: bool
  redirections :: "redirection list"

definition IsForwardingEnabled :: "firewall \<Rightarrow> bool" where
  "IsForwardingEnabled fw = forwarding fw"

definition EnableForwarding :: "firewall \<Rightarrow> bool \<Rightarrow> firewall" where
  "EnableForwarding fw enabled = fw\<lparr>forwarding := enabled\<rparr>"

definition EnableRedirection ::
  "(redirection \<Rightarrow> bool \<Rightarrow> string option) \<Rightarrow> firewall \<Rightarrow> redirection \<Rightarrow> bool
     \<Rightarrow> string option \<times> firewall" where
  "EnableRedirection fails fw r enabled =
     (case fails r enabled of
        Some err \<Rightarrow> (Some err, fw)
      | None \<Rightarrow>
          (None, fw\<lparr>redirections :=
                      (if enabled then List.insert r (redirections fw)
                       else removeAll r (redirections fw))\<rparr>))"

definition NewRedirection :: "string \<Rightarrow> string \<Rightarrow> int \<Rightarrow> string \<Rightarrow> int \<Rightarrow> redirection" where
  "NewRedirection iface proto port_from addr_to port_to =
     \<lparr>Interface = iface, Protocol = proto, SrcPort = port_from,
      DstAddress = addr_to, DstPort = port_to\<rparr>"

text \<open>The parts of \<open>session.Session\<close> the proxy uses: the firewall, the event sink
  and the name of the network interface.\<close>

record session =
  Firewall :: firewall
  Events :: "event list"
  InterfaceName :: string

text \<open>The struct \<open>HTTPProxy\<close>. \<open>ServerAddr\<close> is \<open>Server.Addr\<close>; \<open>sniListener\<close> is
  \<open>None\<close> while the field is \<open>nil\<close> and otherwise holds the address listened on;
  \<open>sess\<close> is the session the pointer leads to.\<close>

record HTTPProxy =
  Name :: string
  Address :: string
  ServerAddr :: string
  Redirection :: "redirection option"
  Script :: "ProxyScript option"
  CertFile :: string
  KeyFile :: string
  isTLS :: bool
  isRunning :: bool
  sniListener :: "string option"
  sess :: session

text \<open>What lies outside the proxy and decides how its calls end: the script loader
  (Go's \<open>(err, script)\<close>), the firewall's failures, the files (\<open>None\<close> for a file
  that cannot be read), \<open>tls.X509KeyPair\<close>, \<open>x509.ParseCertificate\<close>, and the error
  of \<open>Server.Shutdown\<close>.\<close>

record externals =
  LoadProxyScript :: "string \<Rightarrow> string option \<times> ProxyScript option"
  EnableRedirectionFails :: "redirection \<Rightarrow> bool \<Rightarrow> string option"
  ReadFile :: "string \<Rightarrow> string option"
  X509KeyPair :: "string \<Rightarrow> string \<Rightarrow> string + tlsCertificate"
  ParseCertificate :: "string \<Rightarrow> string + string"
  ShutdownError :: "string option"

definition NewHTTPProxy :: "session \<Rightarrow> HTTPProxy" where
  "NewHTTPProxy s =
     \<lparr>Name = ''http.proxy'', Address = '''', ServerAddr = '''', Redirection = None,
      Script = None, CertFile = '''', KeyFile = '''', isTLS = False, isRunning = False,
      sniListener = None, sess = s\<rparr>"

section \<open>Hook dispatcher\<close>

definition logAction :: "HTTPProxy \<Rightarrow> request \<Rightarrow> JSResponse \<Rightarrow> HTTPProxy" where
  "logAction p req jsres =
     p\<lparr>sess := (sess p)\<lparr>Events := Events (sess p) @
         [\<lparr>EventName = Name p @ ''.spoofed-response'',
           To = Split (RemoteAddr req) CHR '':'' ! 0,
           EventMethod = Method req,
           EventHost = Host req,
           EventPath = Path (URL req),
           Size = int (length (Body jsres))\<rparr>]\<rparr>\<rparr>"

text \<open>The handler registered with \<open>OnRequest().DoFunc\<close>: the request to go on with,
  and the response that replaces the exchange, if any.\<close>

definition OnRequest_DoFunc ::
  "HTTPProxy \<Rightarrow> request \<Rightarrow> (request \<times> response option) \<times> HTTPProxy \<times> effect list" where
  "OnRequest_DoFunc p req =
     (let es = [LogDebug ''(%s) < %s %s %s%s''
                  [AStr (Name p), AStr (RemoteAddr req), AStr (Method req), AStr (Host req),
                   AStr (Path (URL req))]]
      in case Script p of
           None \<Rightarrow> ((req, None), p, es)
         | Some script \<Rightarrow>
             (case OnRequest script req of
                None \<Rightarrow> ((req, None), p, es @ [ScriptOnRequest req])
              | Some jsres \<Rightarrow>
                  ((req, Some (ToResponse jsres req)), logAction p req jsres,
                   es @ [ScriptOnRequest req])))"

text \<open>The handler registered with \<open>OnResponse().DoFunc\<close>.\<close>

definition OnResponse_DoFunc ::
  "HTTPProxy \<Rightarrow> response \<Rightarrow> response \<times> HTTPProxy \<times> effect list" where
  "OnResponse_DoFunc p res =
     (let req = Request res;
          es = [LogDebug ''(%s) > %s %s %s%s''
                  [AStr (Name p), AStr (RemoteAddr req), AStr (Method req), AStr (Host req),
                   AStr (Path (URL req))]]
      in case Script p of
           None \<Rightarrow> (res, p, es)
         | Some script \<Rightarrow>
             (case OnResponse script res of
                None \<Rightarrow> (res, p, es @ [ScriptOnResponse res])
              | Some jsres \<Rightarrow>
                  (ToResponse jsres (Request res), logAction p (Request res) jsres,
                   es @ [ScriptOnResponse res])))"

section \<open>Configuration and shutdown\<close>

text \<open>The \<open>%d\<close> of \<open>fmt.Sprintf\<close>: an integer in decimal.\<close>

function Itoa_nat :: "nat \<Rightarrow> string" where
  "Itoa_nat n =
     (if n < 10 then [char_of (48 + n)]
      else Itoa_nat (n div 10) @ [char_of (48 + n mod 10)])"
  by pat_completeness auto
termination
  by (relation "measure id") auto

declare Itoa_nat.simps [simp del]

definition Itoa :: "int \<Rightarrow> string" where
  "Itoa i = (if i < 0 then CHR ''-'' # Itoa_nat (nat (- i)) else Itoa_nat (nat i))"

definition Configure ::
  "externals \<Rightarrow> string \<Rightarrow> int \<Rightarrow> int \<Rightarrow> string \<Rightarrow> HTTPProxy
     \<Rightarrow> outcome \<times> HTTPProxy \<times> effect list" where
  "Configure ext address proxyPort httpPort scriptPath p0 =
     (let p1 = p0\<lparr>Address := address\<rparr>;
          (loadErr, p2, es1) =
            (if scriptPath \<noteq> ''''
             then (let (err, script) = LoadProxyScript ext scriptPath
                   in (err, p1\<lparr>Script := script\<rparr>,
                       if err = None then [LogDebug ''Proxy script %s loaded.'' [AStr scriptPath]]
                       else []))
             else (None, p1, []))
      in case loadErr of
           Some err \<Rightarrow> (Err err, p2, es1)
         | None \<Rightarrow>
             (let p3 = p2\<lparr>ServerAddr := Address p2 @ '':'' @ Itoa proxyPort\<rparr>;
                  (p4, es2) =
                    (if IsForwardingEnabled (Firewall (sess p3)) = False
                     then (p3\<lparr>sess := (sess p3)\<lparr>Firewall :=
                                 EnableForwarding (Firewall (sess p3)) True\<rparr>\<rparr>,
                           [LogInfo ''Enabling forwarding.'' [], FwEnableForwarding True])
                     else (p3, []));
                  r = NewRedirection (InterfaceName (sess p4)) ''TCP'' httpPort (Address p4) proxyPort;
                  p5 = p4\<lparr>Redirection := Some r\<rparr>;
                  (err, fw) = EnableRedirection (EnableRedirectionFails ext) (Firewall (sess p5)) r True;
                  p6 = p5\<lparr>sess := (sess p5)\<lparr>Firewall := fw\<rparr>\<rparr>;
                  es3 = es1 @ es2 @ [FwEnableRedirection r True]
              in case err of
                   Some e \<Rightarrow> (Err e, p6, es3)
                 | None \<Rightarrow> (Ok, p6, es3 @ [LogDebug ''Applied redirection %s'' [ARedir r]])))"

definition ConfigureTLS ::
  "externals \<Rightarrow> string \<Rightarrow> int \<Rightarrow> int \<Rightarrow> string \<Rightarrow> string \<Rightarrow> string \<Rightarrow> HTTPProxy
     \<Rightarrow> outcome \<times> HTTPProxy \<times> effect list" where
  "ConfigureTLS ext address proxyPort httpPort scriptPath certFile keyFile p0 =
     (case Configure ext address proxyPort httpPort scriptPath p0 of
        (Err err, p1, es) \<Rightarrow> (Err err, p1, es)
      | (Panic msg, p1, es) \<Rightarrow> (Panic msg, p1, es)
      | (Ok, p1, es) \<Rightarrow>
          (let p2 = p1\<lparr>isTLS := True, Name := ''https.proxy'',
                       CertFile := certFile, KeyFile := keyFile\<rparr>;
               rawCert = (case ReadFile ext (CertFile p2) of None \<Rightarrow> '''' | Some bytes \<Rightarrow> bytes);
               rawKey = (case ReadFile ext (KeyFile p2) of None \<Rightarrow> '''' | Some bytes \<Rightarrow> bytes)
           in case X509KeyPair ext rawCert rawKey of
                Inl err \<Rightarrow> (Err err, p2, es)
              | Inr ourCa \<Rightarrow>
                  (case Certificate ourCa of
                     [] \<Rightarrow> (Panic ''index out of range'', p2, es)
                   | der # others \<Rightarrow>
                       (case ParseCertificate ext der of
                          Inl err \<Rightarrow> (Err err, p2, es)
                        | Inr leaf \<Rightarrow>
                            (Ok, p2, es @ [GoproxySetCA (ourCa\<lparr>Leaf := Some leaf\<rparr>)])))))"

text \<open>\<open>Stop\<close>. The timeout of the graceful shutdown is \<open>5*time.Second\<close>, written in
  seconds.\<close>

definition Stop :: "externals \<Rightarrow> HTTPProxy \<Rightarrow> outcome \<times> HTTPProxy \<times> effect list" where
  "Stop ext p0 =
     (let (err, p1, es) =
            (case Redirection p0 of
               None \<Rightarrow> (None, p0, [])
             | Some r \<Rightarrow>
                 (let (e, fw) = EnableRedirection (EnableRedirectionFails ext) (Firewall (sess p0)) r False;
                      pa = p0\<lparr>sess := (sess p0)\<lparr>Firewall := fw\<rparr>\<rparr>;
                      esa = [LogDebug ''Disabling redirection %s'' [ARedir r],
                             FwEnableRedirection r False]
                  in case e of
                       Some x \<Rightarrow> (Some x, pa, esa)
                     | None \<Rightarrow> (None, pa\<lparr>Redirection := None\<rparr>, esa)))
      in case err of
           Some x \<Rightarrow> (Err x, p1, es)
         | None \<Rightarrow>
             if isTLS p1 = True
             then (let p2 = p1\<lparr>isRunning := False\<rparr>
                   in case sniListener p2 of
                        None \<Rightarrow> (Panic ''invalid memory address or nil pointer dereference'', p2, es)
                      | Some l \<Rightarrow> (Ok, p2, es @ [ListenerClose]))
             else (case ShutdownError ext of
                     None \<Rightarrow> (Ok, p1, es @ [ServerShutdown 5])
                   | Some x \<Rightarrow> (Err x, p1, es @ [ServerShutdown 5])))"

section \<open>Values to run the definitions on\<close>

definition demoCA :: tlsCertificate where
  "demoCA = \<lparr>Certificate = [''ca-cert''], PrivateKey = ''ca-key'', Leaf = Some ''ca-leaf''\<rparr>"

text \<open>A signer that fails for one host name and otherwise issues a certificate that
  differs from one signing operation to the next.\<close>

definition demoSign :: "nat signFun" where
  "demoSign g ca hostname port =
     (if hostname = ''unsignable.test'' then (Inl ''signing failed'', Suc g)
      else (Inr \<lparr>Certificate = [hostname], PrivateKey = replicate g CHR ''k'', Leaf = None\<rparr>,
            Suc g))"

definition emptyCertState :: "nat certState" where
  "emptyCertState = \<lparr>certCache = Map.empty, signer = 0\<rparr>"

definition exampleRequest :: request where
  "exampleRequest =
     \<lparr>Method = ''GET'', URL = \<lparr>Opaque = '''', URLHost = '''', Path = ''/''\<rparr>,
      Host = ''localhost:8080'', RemoteAddr = ''10.0.0.2:51000'', Header = []\<rparr>"

text \<open>A raw connection that has been closed, and one that is open.\<close>

definition closedConn :: rawConn where
  "closedConn = \<lparr>Sent = '''', Closed = True\<rparr>"

definition openConn :: rawConn where
  "openConn = \<lparr>Sent = '''', Closed = False\<rparr>"

text \<open>A stand-in for \<open>vhost.TLS\<close>: the bytes of a handshake start with the byte
  \<open>0x16\<close>, and what follows it stands for the server name.\<close>

definition sniOf :: "conn \<Rightarrow> string + string" where
  "sniOf c =
     (case ClientBytes c of
        [] \<Rightarrow> Inl ''EOF''
      | b # name \<Rightarrow>
          if b = CHR 0x16 then Inr name
          else Inl ''tls: first record does not look like a TLS handshake'')"

definition plainConn :: conn where
  "plainConn = \<lparr>ConnRemoteAddr = ''10.0.0.2:51000'', ClientBytes = ''GET / HTTP/1.1''\<rparr>"

definition helloConn :: conn where
  "helloConn = \<lparr>ConnRemoteAddr = ''10.0.0.2:51001'', ClientBytes = CHR 0x16 # ''example.com''\<rparr>"

definition noSniConn :: conn where
  "noSniConn = \<lparr>ConnRemoteAddr = ''10.0.0.2:51002'', ClientBytes = [CHR 0x16]\<rparr>"

text \<open>A ClientHello whose server name is an IPv6 literal, and one whose server name has
  a percent sign.\<close>

definition literalConn :: conn where
  "literalConn = \<lparr>ConnRemoteAddr = ''10.0.0.2:51003'', ClientBytes = CHR 0x16 # ''::1''\<rparr>"

definition percentConn :: conn where
  "percentConn = \<lparr>ConnRemoteAddr = ''10.0.0.2:51004'', ClientBytes = CHR 0x16 # ''a%b.test''\<rparr>"

text \<open>A session whose firewall forwards and has one redirection in effect.\<close>

definition exampleRedirection :: redirection where
  "exampleRedirection = NewRedirection ''eth0'' ''TCP'' 443 ''10.0.0.1'' 8083"

definition exampleSession :: session where
  "exampleSession =
     \<lparr>Firewall = \<lparr>forwarding = True, redirections = [exampleRedirection]\<rparr>,
      Events = [], InterfaceName = ''eth0''\<rparr>"

text \<open>A proxy in TLS mode whose worker is listening, with its redirection in effect.\<close>

definition runningTLSProxy :: HTTPProxy where
  "runningTLSProxy =
     (NewHTTPProxy exampleSession)
       \<lparr>Name := ''https.proxy'', Address := ''10.0.0.1'', ServerAddr := ''10.0.0.1:8083'',
        Redirection := Some exampleRedirection, isTLS := True, isRunning := True,
        sniListener := Some ''10.0.0.1:8083''\<rparr>"

definition runningPlainProxy :: HTTPProxy where
  "runningPlainProxy =
     (NewHTTPProxy exampleSession)
       \<lparr>Address := ''10.0.0.1'', ServerAddr := ''10.0.0.1:8083'',
        Redirection := Some exampleRedirection, isRunning := True\<rparr>"

text \<open>Surroundings in which the firewall, the CA files and the server do as asked
  and no script can be loaded, and the same with a firewall that refuses to remove a
  redirection.\<close>

definition goodExternals :: externals where
  "goodExternals =
     \<lparr>LoadProxyScript = (\<lambda>path. (Some ''no such file'', None)),
      EnableRedirectionFails = (\<lambda>r enabled. None),
      ReadFile = (\<lambda>path. if path = ''ca.pem'' then Some ''CERT''
                          else if path = ''ca.key'' then Some ''KEY'' else None),
      X509KeyPair = (\<lambda>cert key.
         if cert = ''CERT'' \<and> key = ''KEY''
         then Inr \<lparr>Certificate = [''DER''], PrivateKey = ''KEY'', Leaf = None\<rparr>
         else Inl ''tls: failed to find any PEM data in certificate input''),
      ParseCertificate = (\<lambda>der. Inr der),
      ShutdownError = None\<rparr>"

definition stuckFirewall :: externals where
  "stuckFirewall =
     goodExternals\<lparr>EnableRedirectionFails :=
        (\<lambda>r enabled. if enabled then None else Some ''exit status 1'')\<rparr>"

text \<open>A session whose firewall does nothing yet; surroundings without CA files; and a
  firewall that refuses to install a redirection.\<close>

definition freshSession :: session where
  "freshSession =
     \<lparr>Firewall = \<lparr>forwarding = False, redirections = []\<rparr>, Events = [], InterfaceName = ''eth0''\<rparr>"

definition noCAFiles :: externals where
  "noCAFiles = goodExternals\<lparr>ReadFile := (\<lambda>path. None)\<rparr>"

definition refusingFirewall :: externals where
  "refusingFirewall =
     goodExternals\<lparr>EnableRedirectionFails :=
        (\<lambda>r enabled. if enabled then Some ''exit status 2'' else None)\<rparr>"

text \<open>A proxy that \<open>ConfigureTLS\<close> has configured and whose worker has not opened its
  listener: \<open>Start\<close> has not been called, or \<open>net.Listen\<close> failed.\<close>

definition configuredTLSProxy :: HTTPProxy where
  "configuredTLSProxy =
     fst (snd (ConfigureTLS goodExternals ''10.0.0.1'' 8083 443 '''' ''ca.pem'' ''ca.key''
                 (NewHTTPProxy freshSession)))"

text \<open>A script that answers every request for \<open>/login\<close> itself and rewrites every
  response whose status is 404.\<close>

definition exampleScript :: ProxyScript where
  "exampleScript =
     \<lparr>OnRequest = (\<lambda>req. if Path (URL req) = ''/login''
                           then Some \<lparr>Status = 200, Headers = '''', Body = ''<h1>hi</h1>''\<rparr>
                           else None),
      OnResponse = (\<lambda>res. if StatusCode res = 404
                            then Some \<lparr>Status = 200, Headers = '''', Body = ''found''\<rparr>
                            else None)\<rparr>"

definition loginRequest :: request where
  "loginRequest =
     \<lparr>Method = ''POST'', URL = \<lparr>Opaque = '''', URLHost = ''example.com'', Path = ''/login''\<rparr>,
      Host = ''example.com'', RemoteAddr = ''10.0.0.2:51000'', Header = []\<rparr>"

definition scriptedProxy :: HTTPProxy where
  "scriptedProxy =
     (NewHTTPProxy \<lparr>Firewall = \<lparr>forwarding = True, redirections = []\<rparr>, Events = [],
                     InterfaceName = ''eth0''\<rparr>)
       \<lparr>Script := Some exampleScript\<rparr>"

section \<open>Facts about the library functions\<close>

lemma SplitN_no_sep:
  "sep \<notin> set s \<Longrightarrow> SplitN s sep (Suc (Suc n)) = [s]"
  by (induction s) auto

lemma SplitN_first_sep:
  "sep \<notin> set h \<Longrightarrow> SplitN (h @ sep # rest) sep (Suc (Suc 0)) = [h, rest]"
  by (induction h) auto

lemma SplitN_two_length:
  "length (SplitN s sep (Suc (Suc 0))) = 1 \<or> length (SplitN s sep (Suc (Suc 0))) = 2"
  by (induction s) (auto split: list.splits)

lemma HasPrefix_append: "HasPrefix (pre @ rest) pre"
  by (simp add: HasPrefix_def)

lemma splitHostPort_no_colon:
  "CHR '':'' \<notin> set host \<Longrightarrow> splitHostPort host = (host, 443)"
  by (simp add: splitHostPort_def numeral_2_eq_2 SplitN_no_sep)

lemma splitHostPort_bad_port:
  "CHR '':'' \<notin> set h \<Longrightarrow> Atoi suffix = Inl err
     \<Longrightarrow> splitHostPort (h @ CHR '':'' # suffix) = (h, 443)"
  by (simp add: splitHostPort_def numeral_2_eq_2 SplitN_first_sep)

lemma splitHostPort_good_port:
  "CHR '':'' \<notin> set h \<Longrightarrow> Atoi suffix = Inr n
     \<Longrightarrow> splitHostPort (h @ CHR '':'' # suffix) = (h, n)"
  by (simp add: splitHostPort_def numeral_2_eq_2 SplitN_first_sep)

section \<open>Host filter: what doProxy returns\<close>

lemma doProxy_blacklisted_prefix:
  "pre \<in> set bl \<Longrightarrow> HasPrefix (Host req) pre \<Longrightarrow> \<not> fst (doProxy_blacklisted req bl)"
  by (induction bl) auto

lemma doProxy_blacklisted_Host:
  "Host r1 = Host r2 \<Longrightarrow> fst (doProxy_blacklisted r1 bl) = fst (doProxy_blacklisted r2 bl)"
  by (induction bl) auto

text \<open>
  Claim C4. The host filter \<open>doProxy\<close> returns false for the empty host and for every
  host that begins with \<open>localhost\<close> or with \<open>127.0.0.1\<close> (so for \<open>localhost\<close>
  and for \<open>127.0.0.1:8080\<close>), it returns true for \<open>example.com\<close>, and what it
  returns depends on nothing but the request's host.
\<close>
theorem doProxy_host_filter:
  "\<not> fst (doProxy (req\<lparr>Host := ''''\<rparr>))
   \<and> (\<forall>rest. Host req = ''localhost'' @ rest \<or> Host req = ''127.0.0.1'' @ rest
          \<longrightarrow> \<not> fst (doProxy req))
   \<and> \<not> fst (doProxy (req\<lparr>Host := ''localhost''\<rparr>))
   \<and> \<not> fst (doProxy (req\<lparr>Host := ''127.0.0.1:8080''\<rparr>))
   \<and> fst (doProxy (req\<lparr>Host := ''example.com''\<rparr>))
   \<and> (\<forall>req'. Host req' = Host req \<longrightarrow> fst (doProxy req') = fst (doProxy req))"
proof -
  have empty: "\<not> fst (doProxy (req\<lparr>Host := ''''\<rparr>))"
    by (simp add: doProxy_def)
  have pre: "\<not> fst (doProxy r)" if "Host r = ''localhost'' @ rest \<or> Host r = ''127.0.0.1'' @ rest"
    for r rest
  proof -
    from that have "HasPrefix (Host r) ''localhost'' \<or> HasPrefix (Host r) ''127.0.0.1''"
      using HasPrefix_append by metis
    then have "\<not> fst (doProxy_blacklisted r blacklist)"
      using doProxy_blacklisted_prefix [of _ blacklist r] by (auto simp: blacklist_def)
    then show ?thesis by (simp add: doProxy_def)
  qed
  have l: "\<not> fst (doProxy (req\<lparr>Host := ''localhost''\<rparr>))"
    by (simp add: doProxy_def blacklist_def HasPrefix_def)
  have i: "\<not> fst (doProxy (req\<lparr>Host := ''127.0.0.1:8080''\<rparr>))"
    by (simp add: doProxy_def blacklist_def HasPrefix_def)
  have e: "fst (doProxy (req\<lparr>Host := ''example.com''\<rparr>))"
    by (simp add: doProxy_def blacklist_def HasPrefix_def)
  have p: "fst (doProxy r') = fst (doProxy req)" if "Host r' = Host req" for r'
    using that doProxy_blacklisted_Host [of r' req blacklist] by (simp add: doProxy_def)
  from empty pre l i e p show ?thesis by blast
qed

text \<open>The filter on a request for \<open>localhost:8080\<close>, and on the same request from
  another peer.\<close>
theorem doProxy_host_filter_witness:
  "Host exampleRequest = ''localhost'' @ '':8080'' \<and> \<not> fst (doProxy exampleRequest)
   \<and> Host (exampleRequest\<lparr>RemoteAddr := ''10.0.0.3:4''\<rparr>) = Host exampleRequest
   \<and> fst (doProxy (exampleRequest\<lparr>RemoteAddr := ''10.0.0.3:4''\<rparr>)) = fst (doProxy exampleRequest)"
  using doProxy_host_filter [of exampleRequest]
  by (simp add: exampleRequest_def)

section \<open>Certificate cache: hits, failures and the default port\<close>

lemma TLSConfigFromCA_hit:
  "splitHostPort host = (hostname, port) \<Longrightarrow> getCachedCert (certCache st) hostname port = Some cert
     \<Longrightarrow> TLSConfigFromCA ca sign host st
           = (Inr \<lparr>InsecureSkipVerify = True, Certificates = [cert]\<rparr>, st, [])"
  by (simp add: TLSConfigFromCA_def)

lemma TLSConfigFromCA_Inr:
  assumes "TLSConfigFromCA ca sign host st = (Inr cfg, st', es)"
    and "splitHostPort host = (hostname, port)"
  shows "\<exists>cert. cfg = \<lparr>InsecureSkipVerify = True, Certificates = [cert]\<rparr>
           \<and> getCachedCert (certCache st') hostname port = Some cert"
  using assms
  by (auto simp: TLSConfigFromCA_def getCachedCert_def setCachedCert_def Let_def
           split: option.splits prod.splits sum.splits)

text \<open>
  Claim C1. On a cache hit \<open>TLSConfigFromCA\<close> returns a configuration with the stored
  certificate, leaves the cache and the signer as they are and calls no signing
  operation; so whenever a call returns a configuration, a second call whose host
  string gives the same (hostname, port) returns the same configuration, with the same
  certificate, without signing.
\<close>
theorem TLSConfigFromCA_cache_hit:
  "(getCachedCert (certCache st) (fst (splitHostPort host)) (snd (splitHostPort host)) = Some cert
      \<longrightarrow> TLSConfigFromCA ca sign host st
            = (Inr \<lparr>InsecureSkipVerify = True, Certificates = [cert]\<rparr>, st, []))
   \<and> (\<forall>cfg st' es host'.
         TLSConfigFromCA ca sign host st = (Inr cfg, st', es)
           \<and> splitHostPort host' = splitHostPort host
         \<longrightarrow> TLSConfigFromCA ca sign host' st' = (Inr cfg, st', []))"
proof (intro conjI allI impI)
  assume "getCachedCert (certCache st) (fst (splitHostPort host)) (snd (splitHostPort host)) = Some cert"
  then show "TLSConfigFromCA ca sign host st
            = (Inr \<lparr>InsecureSkipVerify = True, Certificates = [cert]\<rparr>, st, [])"
    using TLSConfigFromCA_hit [of host "fst (splitHostPort host)" "snd (splitHostPort host)"] by simp
next
  fix cfg st' es host'
  assume a: "TLSConfigFromCA ca sign host st = (Inr cfg, st', es)
           \<and> splitHostPort host' = splitHostPort host"
  obtain hostname port where hp: "splitHostPort host = (hostname, port)"
    by (cases "splitHostPort host")
  from a hp TLSConfigFromCA_Inr [of ca sign host st cfg st' es hostname port]
  obtain cert where c: "cfg = \<lparr>InsecureSkipVerify = True, Certificates = [cert]\<rparr>"
    "getCachedCert (certCache st') hostname port = Some cert" by blast
  from a hp have "splitHostPort host' = (hostname, port)" by simp
  with c show "TLSConfigFromCA ca sign host' st' = (Inr cfg, st', [])"
    using TLSConfigFromCA_hit by simp
qed

text \<open>Two calls for \<open>example.com\<close>, the second one with the port written out, on a
  signer that would issue a different certificate the second time.\<close>
theorem TLSConfigFromCA_cache_hit_witness:
  "fst (TLSConfigFromCA demoCA demoSign ''example.com'' emptyCertState)
     = Inr \<lparr>InsecureSkipVerify = True,
            Certificates = [\<lparr>Certificate = [''example.com''], PrivateKey = '''', Leaf = None\<rparr>]\<rparr>
   \<and> TLSConfigFromCA demoCA demoSign ''example.com:443''
         (fst (snd (TLSConfigFromCA demoCA demoSign ''example.com'' emptyCertState)))
       = (fst (TLSConfigFromCA demoCA demoSign ''example.com'' emptyCertState),
          fst (snd (TLSConfigFromCA demoCA demoSign ''example.com'' emptyCertState)), [])
   \<and> getCachedCert
         (certCache (fst (snd (TLSConfigFromCA demoCA demoSign ''example.com'' emptyCertState))))
         ''example.com'' 443
       = Some \<lparr>Certificate = [''example.com''], PrivateKey = '''', Leaf = None\<rparr>
   \<and> fst (demoSign 1 demoCA ''example.com'' 443)
       = Inr \<lparr>Certificate = [''example.com''], PrivateKey = ''k'', Leaf = None\<rparr>"
proof -
  let ?cert = "\<lparr>Certificate = [''example.com''], PrivateKey = '''', Leaf = None\<rparr>"
  let ?st1 = "\<lparr>certCache = setCachedCert Map.empty ''example.com'' 443 ?cert, signer = Suc 0\<rparr>"
  have k1: "splitHostPort ''example.com'' = (''example.com'', 443)"
    by (simp add: splitHostPort_no_colon)
  have k2: "splitHostPort ''example.com:443'' = (''example.com'', 443)"
    using splitHostPort_good_port [of "''example.com''" "''443''" 443]
    by (simp add: Atoi_def isDigit_def)
  have first: "TLSConfigFromCA demoCA demoSign ''example.com'' emptyCertState
     = (Inr \<lparr>InsecureSkipVerify = True, Certificates = [?cert]\<rparr>, ?st1,
        [LogInfo ''Creating spoofed certificate for %s:%d'' [AStr ''example.com'', AInt 443],
         SignCertificateForHost ''example.com'' 443])"
    by (simp add: TLSConfigFromCA_def k1 getCachedCert_def demoSign_def emptyCertState_def)
  have g: "getCachedCert (certCache ?st1) ''example.com'' 443 = Some ?cert"
    by (simp add: getCachedCert_def setCachedCert_def)
  have d: "fst (demoSign 1 demoCA ''example.com'' 443)
       = Inr \<lparr>Certificate = [''example.com''], PrivateKey = ''k'', Leaf = None\<rparr>"
    by (simp add: demoSign_def)
  note a = TLSConfigFromCA_cache_hit [where st = emptyCertState and host = "''example.com''"
      and ca = demoCA and sign = demoSign]
  note b = TLSConfigFromCA_cache_hit [where st = ?st1 and host = "''example.com:443''"
      and ca = demoCA and sign = demoSign and cert = ?cert]
  from a b k1 k2 first g d show ?thesis
    by simp
qed

lemma TLSConfigFromCA_miss_fail:
  assumes "splitHostPort host = (hostname, port)"
    and "getCachedCert (certCache st) hostname port = None"
    and "sign (signer st) ca hostname port = (Inl err, g)"
  shows "TLSConfigFromCA ca sign host st
     = (Inl err, st\<lparr>signer := g\<rparr>,
        [LogInfo ''Creating spoofed certificate for %s:%d'' [AStr hostname, AInt port],
         SignCertificateForHost hostname port,
         LogWarning ''Cannot sign host certificate with provided CA: %s'' [AStr err]])"
  using assms by (simp add: TLSConfigFromCA_def)

lemma TLSConfigFromCA_miss_signs:
  assumes "splitHostPort host = (hostname, port)"
    and "getCachedCert (certCache st) hostname port = None"
  shows "SignCertificateForHost hostname port \<in> set (snd (snd (TLSConfigFromCA ca sign host st)))"
  using assms by (simp add: TLSConfigFromCA_def Let_def split: prod.splits sum.splits)

lemma TLSConfigFromCA_miss_ok:
  assumes "splitHostPort host = (hostname, port)"
    and "getCachedCert (certCache st) hostname port = None"
    and "sign (signer st) ca hostname port = (Inr cert, g)"
  shows "TLSConfigFromCA ca sign host st
     = (Inr \<lparr>InsecureSkipVerify = True, Certificates = [cert]\<rparr>,
        st\<lparr>certCache := setCachedCert (certCache st) hostname port cert, signer := g\<rparr>,
        [LogInfo ''Creating spoofed certificate for %s:%d'' [AStr hostname, AInt port],
         SignCertificateForHost hostname port])"
  using assms by (simp add: TLSConfigFromCA_def)

text \<open>
  Claim C2. When the (hostname, port) of the host string is not cached and the signing
  operation fails, \<open>TLSConfigFromCA\<close> returns the signer's error and the cache is
  left as it was, with no entry for that key; a later call for the same key calls the
  signing operation again.
\<close>
theorem TLSConfigFromCA_sign_failure:
  assumes "splitHostPort host = (hostname, port)"
    and "getCachedCert (certCache st) hostname port = None"
    and "sign (signer st) ca hostname port = (Inl err, g)"
  shows "fst (TLSConfigFromCA ca sign host st) = Inl err
     \<and> certCache (fst (snd (TLSConfigFromCA ca sign host st))) = certCache st
     \<and> getCachedCert (certCache (fst (snd (TLSConfigFromCA ca sign host st)))) hostname port = None
     \<and> SignCertificateForHost hostname port
         \<in> set (snd (snd (TLSConfigFromCA ca sign host (fst (snd (TLSConfigFromCA ca sign host st))))))"
proof -
  let ?st' = "fst (snd (TLSConfigFromCA ca sign host st))"
  have r: "TLSConfigFromCA ca sign host st
     = (Inl err, st\<lparr>signer := g\<rparr>,
        [LogInfo ''Creating spoofed certificate for %s:%d'' [AStr hostname, AInt port],
         SignCertificateForHost hostname port,
         LogWarning ''Cannot sign host certificate with provided CA: %s'' [AStr err]])"
    using assms by (rule TLSConfigFromCA_miss_fail)
  then have c: "certCache ?st' = certCache st" by simp
  with assms(2) have m: "getCachedCert (certCache ?st') hostname port = None" by simp
  from assms(1) m have "SignCertificateForHost hostname port
         \<in> set (snd (snd (TLSConfigFromCA ca sign host ?st')))"
    by (rule TLSConfigFromCA_miss_signs)
  with r c m show ?thesis by simp
qed

text \<open>A host the signer refuses, on an empty cache.\<close>
theorem TLSConfigFromCA_sign_failure_witness:
  "fst (TLSConfigFromCA demoCA demoSign ''unsignable.test:8443'' emptyCertState) = Inl ''signing failed''
   \<and> certCache (fst (snd (TLSConfigFromCA demoCA demoSign ''unsignable.test:8443'' emptyCertState)))
        = certCache emptyCertState
   \<and> SignCertificateForHost ''unsignable.test'' 8443
         \<in> set (snd (snd (TLSConfigFromCA demoCA demoSign ''unsignable.test:8443''
               (fst (snd (TLSConfigFromCA demoCA demoSign ''unsignable.test:8443'' emptyCertState))))))"
proof -
  have k: "splitHostPort ''unsignable.test:8443'' = (''unsignable.test'', 8443)"
    using splitHostPort_good_port [of "''unsignable.test''" "''8443''" 8443]
    by (simp add: Atoi_def isDigit_def)
  have m: "getCachedCert (certCache emptyCertState) ''unsignable.test'' 8443 = None"
    by (simp add: getCachedCert_def emptyCertState_def)
  have s: "demoSign (signer emptyCertState) demoCA ''unsignable.test'' 8443 = (Inl ''signing failed'', Suc 0)"
    by (simp add: demoSign_def emptyCertState_def)
  from TLSConfigFromCA_sign_failure [of "''unsignable.test:8443''" "''unsignable.test''" 8443
      emptyCertState demoSign demoCA "''signing failed''" "Suc 0", OF k m s]
  show ?thesis by (simp add: emptyCertState_def)
qed

text \<open>
  Claim C10. When the host string has no colon, or when what follows its first colon
  is not an integer that \<open>strconv.Atoi\<close> reads, the port is 443: \<open>example.com\<close>,
  \<open>example.com:443\<close> and \<open>example.com:abc\<close> all give the key
  \<open>(example.com, 443)\<close>. That pair is the key looked up in the cache, the pair passed
  to the signing operation on a miss, and the key under which the new certificate is
  stored.
\<close>
theorem TLSConfigFromCA_default_port:
  "(CHR '':'' \<notin> set host \<longrightarrow> splitHostPort host = (host, 443))
   \<and> (\<forall>h suffix err. host = h @ CHR '':'' # suffix \<and> CHR '':'' \<notin> set h \<and> Atoi suffix = Inl err
          \<longrightarrow> splitHostPort host = (h, 443))
   \<and> splitHostPort ''example.com'' = (''example.com'', 443)
   \<and> splitHostPort ''example.com:443'' = (''example.com'', 443)
   \<and> splitHostPort ''example.com:abc'' = (''example.com'', 443)
   \<and> (\<forall>hostname. splitHostPort host = (hostname, 443)
          \<longrightarrow> (case getCachedCert (certCache st) hostname 443 of
                 Some cert \<Rightarrow>
                   TLSConfigFromCA ca sign host st
                     = (Inr \<lparr>InsecureSkipVerify = True, Certificates = [cert]\<rparr>, st, [])
               | None \<Rightarrow>
                   SignCertificateForHost hostname 443
                     \<in> set (snd (snd (TLSConfigFromCA ca sign host st)))
                   \<and> (\<forall>cert g. sign (signer st) ca hostname 443 = (Inr cert, g)
                         \<longrightarrow> certCache (fst (snd (TLSConfigFromCA ca sign host st)))
                               = (certCache st)((hostname, 443) \<mapsto> cert))))"
proof -
  have a: "CHR '':'' \<notin> set host \<longrightarrow> splitHostPort host = (host, 443)"
    by (simp add: splitHostPort_no_colon)
  have b: "\<forall>h suffix err. host = h @ CHR '':'' # suffix \<and> CHR '':'' \<notin> set h \<and> Atoi suffix = Inl err
          \<longrightarrow> splitHostPort host = (h, 443)"
    using splitHostPort_bad_port by blast
  have e1: "splitHostPort ''example.com'' = (''example.com'', 443)"
    by (simp add: splitHostPort_no_colon)
  have e2: "splitHostPort ''example.com:443'' = (''example.com'', 443)"
    using splitHostPort_good_port [of "''example.com''" "''443''" 443]
    by (simp add: Atoi_def isDigit_def)
  have e3: "splitHostPort ''example.com:abc'' = (''example.com'', 443)"
    using splitHostPort_bad_port [of "''example.com''" "''abc''" ErrSyntax]
    by (simp add: Atoi_def isDigit_def)
  have c: "case getCachedCert (certCache st) hostname 443 of
                 Some cert \<Rightarrow>
                   TLSConfigFromCA ca sign host st
                     = (Inr \<lparr>InsecureSkipVerify = True, Certificates = [cert]\<rparr>, st, [])
               | None \<Rightarrow>
                   SignCertificateForHost hostname 443
                     \<in> set (snd (snd (TLSConfigFromCA ca sign host st)))
                   \<and> (\<forall>cert g. sign (signer st) ca hostname 443 = (Inr cert, g)
                         \<longrightarrow> certCache (fst (snd (TLSConfigFromCA ca sign host st)))
                               = (certCache st)((hostname, 443) \<mapsto> cert))"
    if hp: "splitHostPort host = (hostname, 443)" for hostname
  proof (cases "getCachedCert (certCache st) hostname 443")
    case None
    have "SignCertificateForHost hostname 443 \<in> set (snd (snd (TLSConfigFromCA ca sign host st)))"
      using hp None by (rule TLSConfigFromCA_miss_signs)
    moreover have "certCache (fst (snd (TLSConfigFromCA ca sign host st)))
                               = (certCache st)((hostname, 443) \<mapsto> cert)"
      if "sign (signer st) ca hostname 443 = (Inr cert, g)" for cert g
      using TLSConfigFromCA_miss_ok [where sign = sign and ca = ca, OF hp None that] by (simp add: setCachedCert_def)
    ultimately show ?thesis using None by simp
  next
    case (Some cert)
    then show ?thesis using TLSConfigFromCA_hit [OF hp Some] by simp
  qed
  from a b e1 e2 e3 c show ?thesis by blast
qed

text \<open>A host string whose port is a service name, on an empty cache.\<close>
theorem TLSConfigFromCA_default_port_witness:
  "Atoi ''https'' = Inl ErrSyntax
   \<and> splitHostPort ''secure.test:https'' = (''secure.test'', 443)
   \<and> splitHostPort ''secure.test'' = (''secure.test'', 443)
   \<and> SignCertificateForHost ''secure.test'' 443
        \<in> set (snd (snd (TLSConfigFromCA demoCA demoSign ''secure.test:https'' emptyCertState)))
   \<and> certCache (fst (snd (TLSConfigFromCA demoCA demoSign ''secure.test:https'' emptyCertState)))
         (''secure.test'', 443)
       = Some \<lparr>Certificate = [''secure.test''], PrivateKey = '''', Leaf = None\<rparr>"
proof -
  have at: "Atoi ''https'' = Inl ErrSyntax"
    by (simp add: Atoi_def isDigit_def)
  note inst = TLSConfigFromCA_default_port [where host = "''secure.test:https''" and st = emptyCertState
      and ca = demoCA and sign = demoSign]
  from inst have "\<forall>h suffix err. ''secure.test:https'' = h @ CHR '':'' # suffix
          \<and> CHR '':'' \<notin> set h \<and> Atoi suffix = Inl err
          \<longrightarrow> splitHostPort ''secure.test:https'' = (h, 443)"
    by (rule conjunct1 [OF conjunct2])
  then have "''secure.test:https'' = ''secure.test'' @ CHR '':'' # ''https''
          \<and> CHR '':'' \<notin> set ''secure.test'' \<and> Atoi ''https'' = Inl ErrSyntax
          \<longrightarrow> splitHostPort ''secure.test:https'' = (''secure.test'', 443)"
    by blast
  with at have k: "splitHostPort ''secure.test:https'' = (''secure.test'', 443)"
    by simp
  have k': "splitHostPort ''secure.test'' = (''secure.test'', 443)"
    using TLSConfigFromCA_default_port [where host = "''secure.test''" and st = emptyCertState
      and ca = demoCA and sign = demoSign] by simp
  have m: "getCachedCert (certCache emptyCertState) ''secure.test'' 443 = None"
    by (simp add: getCachedCert_def emptyCertState_def)
  have s: "demoSign (signer emptyCertState) demoCA ''secure.test'' 443
     = (Inr \<lparr>Certificate = [''secure.test''], PrivateKey = '''', Leaf = None\<rparr>, Suc 0)"
    by (simp add: demoSign_def emptyCertState_def)
  from inst k m s at k'
  show ?thesis by simp
qed

section \<open>Connection adapter: what reaches the raw connection\<close>

text \<open>
  Claim C6 as stated has the adapter report the buffer's length for every buffer other
  than the handshake bytes. On a raw connection that is closed, the adapter reports
  what the connection's \<open>Write\<close> reports: no byte written, and an error.
\<close>
theorem dumbResponseWriter_Write_count_counterexample:
  "''GET / HTTP/1.1'' \<noteq> okConnectBytes
   \<and> dumbResponseWriter_Write rawConn_Write closedConn ''GET / HTTP/1.1''
       = (closedConn, 0, Some ''use of closed network connection'')
   \<and> fst (snd (dumbResponseWriter_Write rawConn_Write closedConn ''GET / HTTP/1.1''))
       \<noteq> int (length ''GET / HTTP/1.1'')"
  by (simp add: dumbResponseWriter_Write_def okConnectBytes_def rawConn_Write_def closedConn_def)

text \<open>
  Claim C6, amended. When the buffer is the literal \<open>"HTTP/1.0 200 OK\r\n\r\n"\<close> the
  adapter does not call the raw connection (the connection is as before) and reports
  the buffer's length without error. For every other buffer it calls the raw
  connection's \<open>Write\<close> with the very same bytes and returns what that call
  returns: the buffer's length where the connection takes the whole buffer, as an open
  connection does, and the connection's own count and error otherwise.
\<close>
theorem dumbResponseWriter_Write_intercepts:
  "(buf = okConnectBytes
      \<longrightarrow> dumbResponseWriter_Write connWrite c buf = (c, int (length buf), None))
   \<and> (buf \<noteq> okConnectBytes
      \<longrightarrow> dumbResponseWriter_Write connWrite c buf = connWrite c buf)
   \<and> (\<forall>c' n. buf \<noteq> okConnectBytes \<and> connWrite c buf = (c', n, None) \<and> n = int (length buf)
      \<longrightarrow> fst (snd (dumbResponseWriter_Write connWrite c buf)) = int (length buf))
   \<and> dumbResponseWriter_Write rawConn_Write rc okConnectBytes = (rc, 19, None)
   \<and> (buf \<noteq> okConnectBytes \<and> \<not> Closed rc
      \<longrightarrow> dumbResponseWriter_Write rawConn_Write rc buf
            = (rc\<lparr>Sent := Sent rc @ buf\<rparr>, int (length buf), None))"
  by (simp add: dumbResponseWriter_Write_def rawConn_Write_def okConnectBytes_def)

text \<open>The handshake bytes and a request line written to an open connection, and the
  request line written to a closed one.\<close>
theorem dumbResponseWriter_Write_intercepts_witness:
  "dumbResponseWriter_Write rawConn_Write openConn okConnectBytes = (openConn, 19, None)
   \<and> ''GET / HTTP/1.1'' \<noteq> okConnectBytes
   \<and> \<not> Closed openConn
   \<and> dumbResponseWriter_Write rawConn_Write openConn ''GET / HTTP/1.1''
       = (\<lparr>Sent = ''GET / HTTP/1.1'', Closed = False\<rparr>, 14, None)
   \<and> dumbResponseWriter_Write rawConn_Write closedConn ''GET / HTTP/1.1''
       = rawConn_Write closedConn ''GET / HTTP/1.1''"
proof -
  have ne: "''GET / HTTP/1.1'' \<noteq> okConnectBytes"
    by (simp add: okConnectBytes_def)
  have op: "\<not> Closed openConn"
    by (simp add: openConn_def)
  note a = dumbResponseWriter_Write_intercepts [where buf = "''GET / HTTP/1.1''" and rc = openConn
      and connWrite = rawConn_Write and c = closedConn]
  note b = dumbResponseWriter_Write_intercepts [where buf = okConnectBytes and rc = openConn
      and connWrite = rawConn_Write and c = openConn]
  from a b ne op show ?thesis
    by (simp add: openConn_def)
qed

section \<open>SNI sniffer: what happens to an accepted connection\<close>

text \<open>
  Claim C5 as stated has the connection closed when the server name cannot be read, and
  the target of the synthetic request equal to \<open>h:443\<close>. The function started for a
  connection that sent plain HTTP logs the warning and returns: closing the connection
  is not among the things it does. And for the server name \<open>::1\<close> the URL host of the
  request is \<open>[::1]:443\<close>, since \<open>net.JoinHostPort\<close> puts a host with a colon in
  brackets.
\<close>
theorem httpsWorker_conn_close_counterexample:
  "sniOf plainConn = Inl ''tls: first record does not look like a TLS handshake''
   \<and> httpsWorker_conn sniOf plainConn
       = [LogWarning ''Error reading SNI: %s.''
            [AStr ''tls: first record does not look like a TLS handshake'']]
   \<and> ConnClose plainConn \<notin> set (httpsWorker_conn sniOf plainConn)
   \<and> sniOf literalConn = Inr ''::1''
   \<and> httpsWorker_conn sniOf literalConn
       = [LogDebug ''Got new SNI from %s for %s'' [AStr ''10.0.0.2'', AStr ''::1''],
          ServeHTTP literalConn
            \<lparr>Method = ''CONNECT'',
             URL = \<lparr>Opaque = ''::1'', URLHost = ''[::1]:443'', Path = ''''\<rparr>,
             Host = ''::1'', RemoteAddr = '''', Header = []\<rparr>]
   \<and> ''[::1]:443'' \<noteq> ''::1'' @ '':443''"
  by (simp add: httpsWorker_conn_def sniOf_def plainConn_def literalConn_def JoinHostPort_def
        stripPort_def)

text \<open>
  Claim C5, amended. When \<open>vhost.TLS\<close> fails, or the host name it found is empty, the
  function logs one warning and does nothing else: it neither hands a request to the
  proxy core nor closes the connection. When the ClientHello carries the host name
  \<open>h\<close>, it hands the proxy core's \<open>ServeHTTP\<close> the raw connection and a request with
  method \<open>CONNECT\<close>, host \<open>h\<close> and URL host \<open>net.JoinHostPort(h, "443")\<close>, which is
  \<open>h:443\<close> for every \<open>h\<close> without a colon and \<open>[h]:443\<close> for every \<open>h\<close> with
  one. In no case does it close the connection itself.
\<close>
theorem httpsWorker_conn_bridge:
  "(\<forall>err. vhostTLS c = Inl err
      \<longrightarrow> httpsWorker_conn vhostTLS c = [LogWarning ''Error reading SNI: %s.'' [AStr err]])
   \<and> (vhostTLS c = Inr ''''
      \<longrightarrow> httpsWorker_conn vhostTLS c = [LogWarning ''Client does not support SNI.'' []])
   \<and> (\<forall>h. vhostTLS c = Inr h \<and> h \<noteq> ''''
      \<longrightarrow> httpsWorker_conn vhostTLS c
            = [LogDebug ''Got new SNI from %s for %s'' [AStr (stripPort (ConnRemoteAddr c)), AStr h],
               ServeHTTP c
                 \<lparr>Method = ''CONNECT'',
                  URL = \<lparr>Opaque = h, URLHost = JoinHostPort h ''443'', Path = ''''\<rparr>,
                  Host = h, RemoteAddr = '''', Header = []\<rparr>]
          \<and> (CHR '':'' \<notin> set h \<longrightarrow> JoinHostPort h ''443'' = h @ '':443'')
          \<and> (CHR '':'' \<in> set h \<longrightarrow> JoinHostPort h ''443'' = ''['' @ h @ '']:443''))
   \<and> (\<forall>c'. ConnClose c' \<notin> set (httpsWorker_conn vhostTLS c))"
  by (auto simp: httpsWorker_conn_def JoinHostPort_def split: sum.splits)

text \<open>A ClientHello for \<open>example.com\<close>, a connection that sent plain HTTP, a
  ClientHello without a server name, one whose server name has a percent sign, and one
  whose server name has colons.\<close>
theorem httpsWorker_conn_bridge_witness:
  "sniOf helloConn = Inr ''example.com''
   \<and> httpsWorker_conn sniOf helloConn
       = [LogDebug ''Got new SNI from %s for %s'' [AStr ''10.0.0.2'', AStr ''example.com''],
          ServeHTTP helloConn
            \<lparr>Method = ''CONNECT'',
             URL = \<lparr>Opaque = ''example.com'', URLHost = ''example.com:443'', Path = ''''\<rparr>,
             Host = ''example.com'', RemoteAddr = '''', Header = []\<rparr>]
   \<and> sniOf plainConn = Inl ''tls: first record does not look like a TLS handshake''
   \<and> httpsWorker_conn sniOf plainConn
       = [LogWarning ''Error reading SNI: %s.''
            [AStr ''tls: first record does not look like a TLS handshake'']]
   \<and> sniOf noSniConn = Inr ''''
   \<and> httpsWorker_conn sniOf noSniConn = [LogWarning ''Client does not support SNI.'' []]
   \<and> sniOf percentConn = Inr ''a%b.test''
   \<and> httpsWorker_conn sniOf percentConn
       = [LogDebug ''Got new SNI from %s for %s'' [AStr ''10.0.0.2'', AStr ''a%b.test''],
          ServeHTTP percentConn
            \<lparr>Method = ''CONNECT'',
             URL = \<lparr>Opaque = ''a%b.test'', URLHost = ''a%b.test:443'', Path = ''''\<rparr>,
             Host = ''a%b.test'', RemoteAddr = '''', Header = []\<rparr>]
   \<and> sniOf literalConn = Inr ''::1''
   \<and> httpsWorker_conn sniOf literalConn
       = [LogDebug ''Got new SNI from %s for %s'' [AStr ''10.0.0.2'', AStr ''::1''],
          ServeHTTP literalConn
            \<lparr>Method = ''CONNECT'',
             URL = \<lparr>Opaque = ''::1'', URLHost = ''[::1]:443'', Path = ''''\<rparr>,
             Host = ''::1'', RemoteAddr = '''', Header = []\<rparr>]"
proof -
  have h: "sniOf helloConn = Inr ''example.com''"
    by (simp add: sniOf_def helloConn_def)
  have p: "sniOf plainConn = Inl ''tls: first record does not look like a TLS handshake''"
    by (simp add: sniOf_def plainConn_def)
  have n: "sniOf noSniConn = Inr ''''"
    by (simp add: sniOf_def noSniConn_def)
  have q: "sniOf percentConn = Inr ''a%b.test''"
    by (simp add: sniOf_def percentConn_def)
  have l: "sniOf literalConn = Inr ''::1''"
    by (simp add: sniOf_def literalConn_def)
  have s: "stripPort (ConnRemoteAddr helloConn) = ''10.0.0.2''"
    "stripPort (ConnRemoteAddr percentConn) = ''10.0.0.2''"
    "stripPort (ConnRemoteAddr literalConn) = ''10.0.0.2''"
    by (simp_all add: stripPort_def helloConn_def percentConn_def literalConn_def)
  note a = httpsWorker_conn_bridge [where vhostTLS = sniOf and c = helloConn]
  note b = httpsWorker_conn_bridge [where vhostTLS = sniOf and c = plainConn]
  note c = httpsWorker_conn_bridge [where vhostTLS = sniOf and c = noSniConn]
  note d = httpsWorker_conn_bridge [where vhostTLS = sniOf and c = percentConn]
  note e = httpsWorker_conn_bridge [where vhostTLS = sniOf and c = literalConn]
  from a b c d e h p n q l s show ?thesis
    by simp
qed

section \<open>Shutdown\<close>

text \<open>
  Claim C8 as stated has \<open>Stop\<close> shut the listener down after asking the firewall to
  remove the redirection, and in TLS mode close the accept listener. When the firewall
  refuses, \<open>Stop\<close> returns that error at once: the running flag stays set and the
  listener is not closed. And on a proxy that \<open>ConfigureTLS\<close> has configured and whose
  worker has opened no listener yet, \<open>sniListener\<close> is \<open>nil\<close>: \<open>Stop\<close> clears the
  flag and panics at \<open>p.sniListener.Close()\<close>, closing nothing.
\<close>
theorem Stop_listener_counterexample:
  "fst (Stop stuckFirewall runningTLSProxy) = Err ''exit status 1''
   \<and> isRunning (fst (snd (Stop stuckFirewall runningTLSProxy)))
   \<and> snd (snd (Stop stuckFirewall runningTLSProxy))
       = [LogDebug ''Disabling redirection %s'' [ARedir exampleRedirection],
          FwEnableRedirection exampleRedirection False]
   \<and> ListenerClose \<notin> set (snd (snd (Stop stuckFirewall runningTLSProxy)))
   \<and> fst (ConfigureTLS goodExternals ''10.0.0.1'' 8083 443 '''' ''ca.pem'' ''ca.key''
            (NewHTTPProxy freshSession)) = Ok
   \<and> isTLS configuredTLSProxy
   \<and> sniListener configuredTLSProxy = None
   \<and> fst (Stop goodExternals configuredTLSProxy)
       = Panic ''invalid memory address or nil pointer dereference''
   \<and> ListenerClose \<notin> set (snd (snd (Stop goodExternals configuredTLSProxy)))"
  by (simp add: Stop_def stuckFirewall_def goodExternals_def runningTLSProxy_def NewHTTPProxy_def
        exampleSession_def EnableRedirection_def configuredTLSProxy_def ConfigureTLS_def
        Configure_def freshSession_def EnableForwarding_def IsForwardingEnabled_def
        NewRedirection_def Let_def)

lemma Stop_no_redirection:
  assumes "Redirection p = None"
  shows "isTLS p \<Longrightarrow> sniListener p = Some l
           \<Longrightarrow> Stop ext p = (Ok, p\<lparr>isRunning := False\<rparr>, [ListenerClose])"
    and "\<not> isTLS p
           \<Longrightarrow> Stop ext p
               = ((case ShutdownError ext of None \<Rightarrow> Ok | Some x \<Rightarrow> Err x), p, [ServerShutdown 5])"
  using assms by (auto simp: Stop_def split: option.splits)

lemma Stop_removal_first:
  assumes "Redirection p = Some r"
  shows "\<exists>rest. snd (snd (Stop ext p))
           = LogDebug ''Disabling redirection %s'' [ARedir r] # FwEnableRedirection r False # rest"
  using assms
  by (auto simp: Stop_def EnableRedirection_def Let_def split: option.splits prod.splits)

lemma Stop_removal_fails:
  assumes "Redirection p = Some r" and "EnableRedirectionFails ext r False = Some e"
  shows "Stop ext p
     = (Err e, p, [LogDebug ''Disabling redirection %s'' [ARedir r], FwEnableRedirection r False])"
  using assms by (simp add: Stop_def EnableRedirection_def)

lemma Stop_removal_done:
  assumes "Redirection p = Some r" and "EnableRedirectionFails ext r False = None"
  shows "Redirection (fst (snd (Stop ext p))) = None"
    and "r \<notin> set (redirections (Firewall (sess (fst (snd (Stop ext p))))))"
    and "isTLS p \<Longrightarrow> sniListener p = Some l
           \<Longrightarrow> fst (Stop ext p) = Ok \<and> isRunning (fst (snd (Stop ext p))) = False
               \<and> snd (snd (Stop ext p))
                   = [LogDebug ''Disabling redirection %s'' [ARedir r],
                      FwEnableRedirection r False, ListenerClose]"
    and "\<not> isTLS p
           \<Longrightarrow> fst (Stop ext p) = (case ShutdownError ext of None \<Rightarrow> Ok | Some x \<Rightarrow> Err x)
               \<and> snd (snd (Stop ext p))
                   = [LogDebug ''Disabling redirection %s'' [ARedir r],
                      FwEnableRedirection r False, ServerShutdown 5]"
  using assms
  by (auto simp: Stop_def EnableRedirection_def Let_def split: option.splits prod.splits)

text \<open>
  Claim C8, amended. With no redirection set, \<open>Stop\<close> makes no firewall call and shuts
  the listener down. With a redirection set, the request to remove it comes before
  everything else \<open>Stop\<close> does to the outside; when the removal fails, \<open>Stop\<close>
  returns the firewall's error and changes nothing more, the listener included; when it
  succeeds, the redirection is gone from the firewall and from the proxy, and the
  listener is shut down after it. Shutting down is, in TLS mode and when the worker has
  opened its accept listener (\<open>sniListener\<close> is not \<open>nil\<close>), clearing the running
  flag and closing that listener, with result \<open>nil\<close>; in PLAIN mode,
  \<open>Server.Shutdown\<close> with a timeout of five seconds, whose error is the result.
  Nothing is said here of TLS mode with no listener opened.
\<close>
theorem Stop_redirection_then_listener:
  "(Redirection p = None \<longrightarrow>
      (\<forall>l. isTLS p \<and> sniListener p = Some l
         \<longrightarrow> Stop ext p = (Ok, p\<lparr>isRunning := False\<rparr>, [ListenerClose]))
      \<and> (\<not> isTLS p
         \<longrightarrow> Stop ext p
             = ((case ShutdownError ext of None \<Rightarrow> Ok | Some x \<Rightarrow> Err x), p, [ServerShutdown 5])))
   \<and> (\<forall>r. Redirection p = Some r \<longrightarrow>
        (\<exists>rest. snd (snd (Stop ext p))
           = LogDebug ''Disabling redirection %s'' [ARedir r] # FwEnableRedirection r False # rest)
        \<and> (\<forall>e. EnableRedirectionFails ext r False = Some e
             \<longrightarrow> Stop ext p
                 = (Err e, p,
                    [LogDebug ''Disabling redirection %s'' [ARedir r], FwEnableRedirection r False]))
        \<and> (EnableRedirectionFails ext r False = None
             \<longrightarrow> Redirection (fst (snd (Stop ext p))) = None
                 \<and> r \<notin> set (redirections (Firewall (sess (fst (snd (Stop ext p))))))
                 \<and> (\<forall>l. isTLS p \<and> sniListener p = Some l
                      \<longrightarrow> fst (Stop ext p) = Ok
                          \<and> isRunning (fst (snd (Stop ext p))) = False
                          \<and> snd (snd (Stop ext p))
                              = [LogDebug ''Disabling redirection %s'' [ARedir r],
                                 FwEnableRedirection r False, ListenerClose])
                 \<and> (\<not> isTLS p
                      \<longrightarrow> fst (Stop ext p)
                            = (case ShutdownError ext of None \<Rightarrow> Ok | Some x \<Rightarrow> Err x)
                          \<and> snd (snd (Stop ext p))
                              = [LogDebug ''Disabling redirection %s'' [ARedir r],
                                 FwEnableRedirection r False, ServerShutdown 5])))"
proof (intro conjI allI impI)
  fix l assume "Redirection p = None" "isTLS p \<and> sniListener p = Some l"
  then show "Stop ext p = (Ok, p\<lparr>isRunning := False\<rparr>, [ListenerClose])"
    using Stop_no_redirection(1) by blast
next
  assume "Redirection p = None" "\<not> isTLS p"
  then show "Stop ext p
      = ((case ShutdownError ext of None \<Rightarrow> Ok | Some x \<Rightarrow> Err x), p, [ServerShutdown 5])"
    by (rule Stop_no_redirection(2))
next
  fix r assume "Redirection p = Some r"
  then show "\<exists>rest. snd (snd (Stop ext p))
           = LogDebug ''Disabling redirection %s'' [ARedir r] # FwEnableRedirection r False # rest"
    by (rule Stop_removal_first)
next
  fix r e assume "Redirection p = Some r" "EnableRedirectionFails ext r False = Some e"
  then show "Stop ext p
      = (Err e, p, [LogDebug ''Disabling redirection %s'' [ARedir r], FwEnableRedirection r False])"
    by (rule Stop_removal_fails)
next
  fix r assume "Redirection p = Some r" "EnableRedirectionFails ext r False = None"
  then show "Redirection (fst (snd (Stop ext p))) = None"
    by (rule Stop_removal_done(1))
next
  fix r assume "Redirection p = Some r" "EnableRedirectionFails ext r False = None"
  then show "r \<notin> set (redirections (Firewall (sess (fst (snd (Stop ext p))))))"
    by (rule Stop_removal_done(2))
next
  fix r l
  assume a: "Redirection p = Some r" "EnableRedirectionFails ext r False = None"
    and b: "isTLS p \<and> sniListener p = Some l"
  from Stop_removal_done(3) [OF a] b
  show "fst (Stop ext p) = Ok" "isRunning (fst (snd (Stop ext p))) = False"
    "snd (snd (Stop ext p))
       = [LogDebug ''Disabling redirection %s'' [ARedir r], FwEnableRedirection r False, ListenerClose]"
    by blast+
next
  fix r
  assume a: "Redirection p = Some r" "EnableRedirectionFails ext r False = None"
    and b: "\<not> isTLS p"
  from Stop_removal_done(4) [OF a b]
  show "fst (Stop ext p) = (case ShutdownError ext of None \<Rightarrow> Ok | Some x \<Rightarrow> Err x)"
    "snd (snd (Stop ext p))
       = [LogDebug ''Disabling redirection %s'' [ARedir r], FwEnableRedirection r False, ServerShutdown 5]"
    by blast+
qed

text \<open>Stopping a TLS-mode and a PLAIN-mode proxy with a willing firewall, a
  PLAIN-mode proxy with a firewall that refuses the removal, and a TLS-mode proxy that
  has no redirection.\<close>
theorem Stop_redirection_then_listener_witness:
  "Redirection runningTLSProxy = Some exampleRedirection
   \<and> EnableRedirectionFails goodExternals exampleRedirection False = None
   \<and> isTLS runningTLSProxy \<and> sniListener runningTLSProxy = Some ''10.0.0.1:8083''
   \<and> fst (Stop goodExternals runningTLSProxy) = Ok
   \<and> isRunning (fst (snd (Stop goodExternals runningTLSProxy))) = False
   \<and> snd (snd (Stop goodExternals runningTLSProxy))
       = [LogDebug ''Disabling redirection %s'' [ARedir exampleRedirection],
          FwEnableRedirection exampleRedirection False, ListenerClose]
   \<and> exampleRedirection
       \<notin> set (redirections (Firewall (sess (fst (snd (Stop goodExternals runningTLSProxy))))))
   \<and> snd (snd (Stop goodExternals runningPlainProxy))
       = [LogDebug ''Disabling redirection %s'' [ARedir exampleRedirection],
          FwEnableRedirection exampleRedirection False, ServerShutdown 5]
   \<and> Stop stuckFirewall runningPlainProxy
       = (Err ''exit status 1'', runningPlainProxy,
          [LogDebug ''Disabling redirection %s'' [ARedir exampleRedirection],
           FwEnableRedirection exampleRedirection False])
   \<and> Stop goodExternals (runningTLSProxy\<lparr>Redirection := None\<rparr>)
       = (Ok, runningTLSProxy\<lparr>Redirection := None, isRunning := False\<rparr>, [ListenerClose])"
proof -
  have r: "Redirection runningTLSProxy = Some exampleRedirection"
    "Redirection runningPlainProxy = Some exampleRedirection"
    by (simp_all add: runningTLSProxy_def runningPlainProxy_def)
  have f: "EnableRedirectionFails goodExternals exampleRedirection False = None"
    "EnableRedirectionFails stuckFirewall exampleRedirection False = Some ''exit status 1''"
    by (simp_all add: goodExternals_def stuckFirewall_def)
  have t: "isTLS runningTLSProxy" "sniListener runningTLSProxy = Some ''10.0.0.1:8083''"
    "\<not> isTLS runningPlainProxy"
    by (simp_all add: runningTLSProxy_def runningPlainProxy_def NewHTTPProxy_def)
  have s: "ShutdownError goodExternals = None"
    by (simp add: goodExternals_def)
  note a = Stop_redirection_then_listener [where ext = goodExternals and p = runningTLSProxy]
  note b = Stop_redirection_then_listener [where ext = goodExternals and p = runningPlainProxy]
  note c = Stop_redirection_then_listener [where ext = stuckFirewall and p = runningPlainProxy]
  note d = Stop_redirection_then_listener [where ext = goodExternals
      and p = "runningTLSProxy\<lparr>Redirection := None\<rparr>"]
  from a b c d r f t s show ?thesis
    by simp
qed

section \<open>Configuration failures\<close>

text \<open>
  Claim C9 as stated leaves no forwarding or redirection in effect after a failed call.
  \<open>ConfigureTLS\<close> with CA files that cannot be read returns an error after
  \<open>Configure\<close> has switched forwarding on and installed the redirection, and both
  stay.
\<close>
theorem ConfigureTLS_partial_state_counterexample:
  "fst (ConfigureTLS noCAFiles ''10.0.0.1'' 8083 443 '''' ''ca.pem'' ''ca.key'' (NewHTTPProxy freshSession))
     = Err ''tls: failed to find any PEM data in certificate input''
   \<and> redirections (Firewall (sess (fst (snd
         (ConfigureTLS noCAFiles ''10.0.0.1'' 8083 443 '''' ''ca.pem'' ''ca.key''
            (NewHTTPProxy freshSession))))))
       = [NewRedirection ''eth0'' ''TCP'' 443 ''10.0.0.1'' 8083]
   \<and> forwarding (Firewall (sess (fst (snd
         (ConfigureTLS noCAFiles ''10.0.0.1'' 8083 443 '''' ''ca.pem'' ''ca.key''
            (NewHTTPProxy freshSession))))))
   \<and> forwarding (Firewall (sess (NewHTTPProxy freshSession))) = False"
  by (simp add: ConfigureTLS_def Configure_def noCAFiles_def goodExternals_def NewHTTPProxy_def
        freshSession_def EnableRedirection_def EnableForwarding_def IsForwardingEnabled_def
        NewRedirection_def Let_def)

lemma Configure_load_fails:
  assumes "scriptPath \<noteq> ''''" and "LoadProxyScript ext scriptPath = (Some e, script)"
  shows "Configure ext address proxyPort httpPort scriptPath p
           = (Err e, p\<lparr>Address := address, Script := script\<rparr>, [])"
  using assms by (simp add: Configure_def)

lemma Configure_redirection_fails:
  assumes "scriptPath = '''' \<or> fst (LoadProxyScript ext scriptPath) = None"
    and "EnableRedirectionFails ext
           (NewRedirection (InterfaceName (sess p)) ''TCP'' httpPort address proxyPort) True = Some e"
  shows "fst (Configure ext address proxyPort httpPort scriptPath p) = Err e"
    and "forwarding (Firewall (sess (fst (snd (Configure ext address proxyPort httpPort scriptPath p)))))"
    and "redirections (Firewall (sess (fst (snd (Configure ext address proxyPort httpPort scriptPath p)))))
           = redirections (Firewall (sess p))"
    and "Redirection (fst (snd (Configure ext address proxyPort httpPort scriptPath p)))
           = Some (NewRedirection (InterfaceName (sess p)) ''TCP'' httpPort address proxyPort)"
    and "Script (fst (snd (Configure ext address proxyPort httpPort scriptPath p)))
           = (if scriptPath = '''' then Script p else snd (LoadProxyScript ext scriptPath))"
  using assms
  by (auto simp: Configure_def EnableRedirection_def EnableForwarding_def IsForwardingEnabled_def
        Let_def split: prod.splits option.splits)

lemma Configure_ok:
  assumes "scriptPath = '''' \<or> fst (LoadProxyScript ext scriptPath) = None"
    and "EnableRedirectionFails ext
           (NewRedirection (InterfaceName (sess p)) ''TCP'' httpPort address proxyPort) True = None"
  shows "fst (Configure ext address proxyPort httpPort scriptPath p) = Ok"
    and "forwarding (Firewall (sess (fst (snd (Configure ext address proxyPort httpPort scriptPath p)))))"
    and "NewRedirection (InterfaceName (sess p)) ''TCP'' httpPort address proxyPort
           \<in> set (redirections (Firewall (sess (fst (snd
                  (Configure ext address proxyPort httpPort scriptPath p))))))"
    and "Script (fst (snd (Configure ext address proxyPort httpPort scriptPath p)))
           = (if scriptPath = '''' then Script p else snd (LoadProxyScript ext scriptPath))"
  using assms
  by (auto simp: Configure_def EnableRedirection_def EnableForwarding_def IsForwardingEnabled_def
        Let_def split: prod.splits option.splits)

lemma Configure_not_started:
  "isRunning (fst (snd (Configure ext address proxyPort httpPort scriptPath p))) = isRunning p"
  "sniListener (fst (snd (Configure ext address proxyPort httpPort scriptPath p))) = sniListener p"
  by (auto simp: Configure_def Let_def split: prod.splits option.splits)

lemma Configure_no_panic:
  "fst (Configure ext address proxyPort httpPort scriptPath p) \<noteq> Panic msg"
  by (auto simp: Configure_def Let_def split: prod.splits option.splits)

lemma ConfigureTLS_Configure_fails:
  assumes "fst (Configure ext address proxyPort httpPort scriptPath p) = Err e"
  shows "ConfigureTLS ext address proxyPort httpPort scriptPath certFile keyFile p
           = Configure ext address proxyPort httpPort scriptPath p"
  using assms
  by (cases "Configure ext address proxyPort httpPort scriptPath p")
     (simp add: ConfigureTLS_def)

lemma ConfigureTLS_after_Configure:
  assumes "fst (Configure ext address proxyPort httpPort scriptPath p) = Ok"
  shows "sess (fst (snd (ConfigureTLS ext address proxyPort httpPort scriptPath certFile keyFile p)))
           = sess (fst (snd (Configure ext address proxyPort httpPort scriptPath p)))"
    and "Script (fst (snd (ConfigureTLS ext address proxyPort httpPort scriptPath certFile keyFile p)))
           = Script (fst (snd (Configure ext address proxyPort httpPort scriptPath p)))"
    and "isTLS (fst (snd (ConfigureTLS ext address proxyPort httpPort scriptPath certFile keyFile p)))"
    and "isRunning (fst (snd (ConfigureTLS ext address proxyPort httpPort scriptPath certFile keyFile p)))
           = isRunning (fst (snd (Configure ext address proxyPort httpPort scriptPath p)))"
    and "sniListener (fst (snd (ConfigureTLS ext address proxyPort httpPort scriptPath certFile keyFile p)))
           = sniListener (fst (snd (Configure ext address proxyPort httpPort scriptPath p)))"
  using assms
  by (cases "Configure ext address proxyPort httpPort scriptPath p";
      simp add: ConfigureTLS_def Let_def split: sum.splits list.splits)+

lemma ConfigureTLS_not_started:
  "isRunning (fst (snd (ConfigureTLS ext address proxyPort httpPort scriptPath certFile keyFile p)))
     = isRunning p"
  "sniListener (fst (snd (ConfigureTLS ext address proxyPort httpPort scriptPath certFile keyFile p)))
     = sniListener p"
proof -
  let ?c = "Configure ext address proxyPort httpPort scriptPath p"
  let ?t = "ConfigureTLS ext address proxyPort httpPort scriptPath certFile keyFile p"
  have "isRunning (fst (snd ?t)) = isRunning p \<and> sniListener (fst (snd ?t)) = sniListener p"
  proof (cases "fst ?c")
    case Ok
    then show ?thesis
      using ConfigureTLS_after_Configure(4,5) [OF Ok] Configure_not_started [of ext address proxyPort httpPort scriptPath p]
      by simp
  next
    case (Err e)
    then show ?thesis
      using ConfigureTLS_Configure_fails [OF Err] Configure_not_started [of ext address proxyPort httpPort scriptPath p]
      by simp
  next
    case (Panic msg)
    then show ?thesis using Configure_no_panic by blast
  qed
  then show "isRunning (fst (snd ?t)) = isRunning p" "sniListener (fst (snd ?t)) = sniListener p"
    by simp_all
qed

lemma Configure_Ok_conditions:
  assumes "fst (Configure ext address proxyPort httpPort scriptPath p) = Ok"
  shows "scriptPath = '''' \<or> fst (LoadProxyScript ext scriptPath) = None"
    and "EnableRedirectionFails ext
           (NewRedirection (InterfaceName (sess p)) ''TCP'' httpPort address proxyPort) True = None"
proof -
  show a: "scriptPath = '''' \<or> fst (LoadProxyScript ext scriptPath) = None"
  proof (rule ccontr)
    assume "\<not> (scriptPath = '''' \<or> fst (LoadProxyScript ext scriptPath) = None)"
    then obtain e script where "scriptPath \<noteq> ''''" "LoadProxyScript ext scriptPath = (Some e, script)"
      by (cases "LoadProxyScript ext scriptPath") auto
    from Configure_load_fails [OF this] assms show False by simp
  qed
  show "EnableRedirectionFails ext
           (NewRedirection (InterfaceName (sess p)) ''TCP'' httpPort address proxyPort) True = None"
  proof (rule ccontr)
    assume "EnableRedirectionFails ext
           (NewRedirection (InterfaceName (sess p)) ''TCP'' httpPort address proxyPort) True \<noteq> None"
    then obtain e where "EnableRedirectionFails ext
           (NewRedirection (InterfaceName (sess p)) ''TCP'' httpPort address proxyPort) True = Some e"
      by auto
    from Configure_redirection_fails(1) [OF a this] assms show False by simp
  qed
qed

text \<open>
  Claim C9, amended. An error of \<open>Configure\<close> or \<open>ConfigureTLS\<close> is the result of the
  call, and neither call starts anything: the running flag and the listener are as
  before. What the call did before the failing step stays done. After a script that
  fails to load, only the address and the script field have changed and the firewall has
  not been called. After a redirection that fails to install, forwarding is on, the
  firewall's redirections are as before, the script stays loaded and the proxy's
  redirection field is set. After \<open>Configure\<close> succeeded and the CA material failed in
  \<open>ConfigureTLS\<close>, the redirection is in effect, forwarding is on, the script stays
  loaded and the proxy is marked TLS.
\<close>
theorem Configure_failure_state:
  "isRunning (fst (snd (Configure ext address proxyPort httpPort scriptPath p))) = isRunning p
   \<and> sniListener (fst (snd (Configure ext address proxyPort httpPort scriptPath p))) = sniListener p
   \<and> isRunning (fst (snd (ConfigureTLS ext address proxyPort httpPort scriptPath certFile keyFile p)))
       = isRunning p
   \<and> sniListener (fst (snd (ConfigureTLS ext address proxyPort httpPort scriptPath certFile keyFile p)))
       = sniListener p
   \<and> (\<forall>e script. scriptPath \<noteq> '''' \<and> LoadProxyScript ext scriptPath = (Some e, script)
        \<longrightarrow> Configure ext address proxyPort httpPort scriptPath p
              = (Err e, p\<lparr>Address := address, Script := script\<rparr>, [])
            \<and> ConfigureTLS ext address proxyPort httpPort scriptPath certFile keyFile p
              = (Err e, p\<lparr>Address := address, Script := script\<rparr>, []))
   \<and> (\<forall>e. (scriptPath = '''' \<or> fst (LoadProxyScript ext scriptPath) = None)
          \<and> EnableRedirectionFails ext
               (NewRedirection (InterfaceName (sess p)) ''TCP'' httpPort address proxyPort) True = Some e
        \<longrightarrow> fst (Configure ext address proxyPort httpPort scriptPath p) = Err e
            \<and> ConfigureTLS ext address proxyPort httpPort scriptPath certFile keyFile p
                = Configure ext address proxyPort httpPort scriptPath p
            \<and> forwarding (Firewall (sess (fst (snd
                  (Configure ext address proxyPort httpPort scriptPath p)))))
            \<and> redirections (Firewall (sess (fst (snd
                  (Configure ext address proxyPort httpPort scriptPath p)))))
                = redirections (Firewall (sess p))
            \<and> Redirection (fst (snd (Configure ext address proxyPort httpPort scriptPath p)))
                = Some (NewRedirection (InterfaceName (sess p)) ''TCP'' httpPort address proxyPort)
            \<and> Script (fst (snd (Configure ext address proxyPort httpPort scriptPath p)))
                = (if scriptPath = '''' then Script p else snd (LoadProxyScript ext scriptPath)))
   \<and> (\<forall>e. fst (Configure ext address proxyPort httpPort scriptPath p) = Ok
          \<and> fst (ConfigureTLS ext address proxyPort httpPort scriptPath certFile keyFile p) = Err e
        \<longrightarrow> NewRedirection (InterfaceName (sess p)) ''TCP'' httpPort address proxyPort
              \<in> set (redirections (Firewall (sess (fst (snd
                    (ConfigureTLS ext address proxyPort httpPort scriptPath certFile keyFile p))))))
            \<and> forwarding (Firewall (sess (fst (snd
                  (ConfigureTLS ext address proxyPort httpPort scriptPath certFile keyFile p)))))
            \<and> Script (fst (snd
                  (ConfigureTLS ext address proxyPort httpPort scriptPath certFile keyFile p)))
                = (if scriptPath = '''' then Script p else snd (LoadProxyScript ext scriptPath))
            \<and> isTLS (fst (snd
                  (ConfigureTLS ext address proxyPort httpPort scriptPath certFile keyFile p))))"
proof -
  let ?c = "Configure ext address proxyPort httpPort scriptPath p"
  let ?t = "ConfigureTLS ext address proxyPort httpPort scriptPath certFile keyFile p"
  let ?r = "NewRedirection (InterfaceName (sess p)) ''TCP'' httpPort address proxyPort"
  have n: "isRunning (fst (snd ?c)) = isRunning p" "sniListener (fst (snd ?c)) = sniListener p"
    "isRunning (fst (snd ?t)) = isRunning p" "sniListener (fst (snd ?t)) = sniListener p"
    by (rule Configure_not_started ConfigureTLS_not_started)+
  have l: "?c = (Err e, p\<lparr>Address := address, Script := script\<rparr>, [])
         \<and> ?t = (Err e, p\<lparr>Address := address, Script := script\<rparr>, [])"
    if "scriptPath \<noteq> '''' \<and> LoadProxyScript ext scriptPath = (Some e, script)" for e script
  proof -
    from that have c: "?c = (Err e, p\<lparr>Address := address, Script := script\<rparr>, [])"
      by (simp add: Configure_load_fails)
    then have "fst ?c = Err e" by simp
    from ConfigureTLS_Configure_fails [OF this] c show ?thesis by simp
  qed
  have f: "fst ?c = Err e \<and> ?t = ?c
         \<and> forwarding (Firewall (sess (fst (snd ?c))))
         \<and> redirections (Firewall (sess (fst (snd ?c)))) = redirections (Firewall (sess p))
         \<and> Redirection (fst (snd ?c)) = Some ?r
         \<and> Script (fst (snd ?c))
             = (if scriptPath = '''' then Script p else snd (LoadProxyScript ext scriptPath))"
    if "(scriptPath = '''' \<or> fst (LoadProxyScript ext scriptPath) = None)
          \<and> EnableRedirectionFails ext ?r True = Some e" for e
  proof -
    from that have a: "scriptPath = '''' \<or> fst (LoadProxyScript ext scriptPath) = None"
      and b: "EnableRedirectionFails ext ?r True = Some e" by simp_all
    note c = Configure_redirection_fails [OF a b]
    from ConfigureTLS_Configure_fails [OF c(1)] c show ?thesis by simp
  qed
  have t: "?r \<in> set (redirections (Firewall (sess (fst (snd ?t)))))
         \<and> forwarding (Firewall (sess (fst (snd ?t))))
         \<and> Script (fst (snd ?t))
             = (if scriptPath = '''' then Script p else snd (LoadProxyScript ext scriptPath))
         \<and> isTLS (fst (snd ?t))"
    if "fst ?c = Ok \<and> fst ?t = Err e" for e
  proof -
    from that have ok: "fst ?c = Ok" by simp
    note c = Configure_ok [OF Configure_Ok_conditions [OF ok]]
    note d = ConfigureTLS_after_Configure [OF ok]
    from c d show ?thesis by simp
  qed
  from n l f t show ?thesis by blast
qed

text \<open>A firewall that refuses the redirection, a script that cannot be loaded, and CA
  files that cannot be read.\<close>
theorem Configure_failure_state_witness:
  "EnableRedirectionFails refusingFirewall (NewRedirection ''eth0'' ''TCP'' 80 ''10.0.0.1'' 8080) True
     = Some ''exit status 2''
   \<and> fst (Configure refusingFirewall ''10.0.0.1'' 8080 80 '''' (NewHTTPProxy freshSession))
       = Err ''exit status 2''
   \<and> forwarding (Firewall (sess (fst (snd
         (Configure refusingFirewall ''10.0.0.1'' 8080 80 '''' (NewHTTPProxy freshSession))))))
   \<and> forwarding (Firewall (sess (NewHTTPProxy freshSession))) = False
   \<and> LoadProxyScript goodExternals ''hook.js'' = (Some ''no such file'', None)
   \<and> Configure goodExternals ''10.0.0.1'' 8080 80 ''hook.js'' (NewHTTPProxy freshSession)
       = (Err ''no such file'', (NewHTTPProxy freshSession)\<lparr>Address := ''10.0.0.1'', Script := None\<rparr>, [])
   \<and> fst (Configure noCAFiles ''10.0.0.1'' 8083 443 '''' (NewHTTPProxy freshSession)) = Ok
   \<and> fst (ConfigureTLS noCAFiles ''10.0.0.1'' 8083 443 '''' ''ca.pem'' ''ca.key''
            (NewHTTPProxy freshSession))
       = Err ''tls: failed to find any PEM data in certificate input''
   \<and> NewRedirection ''eth0'' ''TCP'' 443 ''10.0.0.1'' 8083
       \<in> set (redirections (Firewall (sess (fst (snd
              (ConfigureTLS noCAFiles ''10.0.0.1'' 8083 443 '''' ''ca.pem'' ''ca.key''
                 (NewHTTPProxy freshSession)))))))"
proof -
  have i: "InterfaceName (sess (NewHTTPProxy freshSession)) = ''eth0''"
    "forwarding (Firewall (sess (NewHTTPProxy freshSession))) = False"
    by (simp_all add: NewHTTPProxy_def freshSession_def)
  have r: "EnableRedirectionFails refusingFirewall (NewRedirection ''eth0'' ''TCP'' 80 ''10.0.0.1'' 8080) True
     = Some ''exit status 2''"
    by (simp add: refusingFirewall_def)
  have s: "LoadProxyScript goodExternals ''hook.js'' = (Some ''no such file'', None)"
    by (simp add: goodExternals_def)
  have c: "fst (Configure noCAFiles ''10.0.0.1'' 8083 443 '''' (NewHTTPProxy freshSession)) = Ok"
    by (simp add: Configure_def noCAFiles_def goodExternals_def EnableRedirection_def Let_def
          split: prod.splits)
  have t: "fst (ConfigureTLS noCAFiles ''10.0.0.1'' 8083 443 '''' ''ca.pem'' ''ca.key''
            (NewHTTPProxy freshSession))
       = Err ''tls: failed to find any PEM data in certificate input''"
    using c
    by (cases "Configure noCAFiles ''10.0.0.1'' 8083 443 '''' (NewHTTPProxy freshSession)")
       (simp add: ConfigureTLS_def noCAFiles_def goodExternals_def)
  note a = Configure_failure_state [where ext = refusingFirewall and address = "''10.0.0.1''"
      and proxyPort = 8080 and httpPort = 80 and scriptPath = "''''"
      and p = "NewHTTPProxy freshSession"]
  note b = Configure_failure_state [where ext = goodExternals and address = "''10.0.0.1''"
      and proxyPort = 8080 and httpPort = 80 and scriptPath = "''hook.js''"
      and p = "NewHTTPProxy freshSession"]
  note d = Configure_failure_state [where ext = noCAFiles and address = "''10.0.0.1''"
      and proxyPort = 8083 and httpPort = 443 and scriptPath = "''''"
      and certFile = "''ca.pem''" and keyFile = "''ca.key''"
      and p = "NewHTTPProxy freshSession"]
  from a b d i r s c t show ?thesis
    by simp
qed

section \<open>Hook dispatcher: the request leg\<close>

lemma Split_nonempty: "Split s sep \<noteq> []"
  by (induction s) (auto split: list.splits)

lemma Split_first: "Split s sep ! 0 = takeWhile (\<lambda>ch. ch \<noteq> sep) s"
proof (induction s)
  case Nil
  then show ?case by simp
next
  case (Cons x xs)
  then show ?case
    using Split_nonempty [of xs sep] by (cases "Split xs sep") auto
qed

text \<open>
  The request leg of the hook dispatcher. When the script's request hook returns an
  action, the handler returns the action's response for the request, adds exactly one
  event to the session's events, with the part of the remote address before its first
  colon, the request's method, host and path and the length of the action's body, and
  does not call the response hook. Without a script, or when the hook returns no action,
  it returns no response and the proxy, its events included, is as before.
\<close>
theorem OnRequest_DoFunc_records_one_event:
  "(\<forall>script jsres. Script p = Some script \<and> OnRequest script req = Some jsres
      \<longrightarrow> fst (OnRequest_DoFunc p req) = (req, Some (ToResponse jsres req))
          \<and> Events (sess (fst (snd (OnRequest_DoFunc p req))))
              = Events (sess p) @
                  [\<lparr>EventName = Name p @ ''.spoofed-response'',
                    To = takeWhile (\<lambda>ch. ch \<noteq> CHR '':'') (RemoteAddr req),
                    EventMethod = Method req, EventHost = Host req, EventPath = Path (URL req),
                    Size = int (length (Body jsres))\<rparr>]
          \<and> (\<forall>res. ScriptOnResponse res \<notin> set (snd (snd (OnRequest_DoFunc p req)))))
   \<and> (Script p = None \<or> (\<exists>script. Script p = Some script \<and> OnRequest script req = None)
      \<longrightarrow> fst (OnRequest_DoFunc p req) = (req, None)
          \<and> fst (snd (OnRequest_DoFunc p req)) = p)"
  by (auto simp: OnRequest_DoFunc_def logAction_def Split_first Let_def split: option.splits)

text \<open>A request the script answers itself, and one it lets through.\<close>
theorem OnRequest_DoFunc_records_one_event_witness:
  "Script scriptedProxy = Some exampleScript
   \<and> OnRequest exampleScript loginRequest = Some \<lparr>Status = 200, Headers = '''', Body = ''<h1>hi</h1>''\<rparr>
   \<and> Events (sess (fst (snd (OnRequest_DoFunc scriptedProxy loginRequest))))
       = [\<lparr>EventName = ''http.proxy.spoofed-response'', To = ''10.0.0.2'',
           EventMethod = ''POST'', EventHost = ''example.com'', EventPath = ''/login'',
           Size = 11\<rparr>]
   \<and> OnRequest exampleScript (loginRequest\<lparr>URL := (URL loginRequest)\<lparr>Path := ''/''\<rparr>\<rparr>) = None
   \<and> fst (snd (OnRequest_DoFunc scriptedProxy (loginRequest\<lparr>URL := (URL loginRequest)\<lparr>Path := ''/''\<rparr>\<rparr>)))
       = scriptedProxy"
proof -
  have s: "Script scriptedProxy = Some exampleScript" "Events (sess scriptedProxy) = []"
    "Name scriptedProxy = ''http.proxy''"
    by (simp_all add: scriptedProxy_def NewHTTPProxy_def)
  have a: "OnRequest exampleScript loginRequest
       = Some \<lparr>Status = 200, Headers = '''', Body = ''<h1>hi</h1>''\<rparr>"
    by (simp add: exampleScript_def loginRequest_def)
  have b: "OnRequest exampleScript (loginRequest\<lparr>URL := (URL loginRequest)\<lparr>Path := ''/''\<rparr>\<rparr>) = None"
    by (simp add: exampleScript_def loginRequest_def)
  have r: "RemoteAddr loginRequest = ''10.0.0.2:51000''" "Method loginRequest = ''POST''"
    "Host loginRequest = ''example.com''" "Path (URL loginRequest) = ''/login''"
    by (simp_all add: loginRequest_def)
  note x = OnRequest_DoFunc_records_one_event [where p = scriptedProxy and req = loginRequest]
  note y = OnRequest_DoFunc_records_one_event [where p = scriptedProxy
      and req = "loginRequest\<lparr>URL := (URL loginRequest)\<lparr>Path := ''/''\<rparr>\<rparr>"]
  from x y s a b r show ?thesis
    by simp
qed

end
